theory Spec2Isabelle
  imports Complex_Main "HOL-Library.AList" "HOL-Library.Char_ord" "HOL-Library.List_Lexorder"
begin

section \<open>Exceptions\<close>

text \<open>
  The exceptions that \<^verbatim>\<open>openoa/schema/metadata.py\<close> raises, as values. A function that can
  raise returns \<open>error + 'a\<close>, with \<open>Inl\<close> for the exception. \<open>KeyError\<close> carries the key that
  was looked up, \<open>AttributeError\<close> the list of missing inputs, the others their message.
\<close>

datatype error =
    KeyError string
  | ValueError string
  | FileExistsError string
  | AttributeError "string list"
  | TypeError string

text \<open>A \<^verbatim>\<open>for\<close> loop over a list whose body may raise: the first exception ends the loop.\<close>

fun for_each :: "('s \<Rightarrow> 'a \<Rightarrow> error + 's) \<Rightarrow> 'a list \<Rightarrow> 's \<Rightarrow> error + 's" where
  "for_each body [] s = Inr s"
| "for_each body (x # xs) s =
     (case body s x of Inl e \<Rightarrow> Inl e | Inr s' \<Rightarrow> for_each body xs s')"

section \<open>The analysis requirements table\<close>

text \<open>
  A Python \<^verbatim>\<open>dict\<close> with string keys that the code iterates over is an association list in
  insertion order, with distinct keys; \<open>map_of\<close> is the lookup. One entry of
  \<^verbatim>\<open>ANALYSIS_REQUIREMENTS[analysis][family]\<close> is a record of its three keys; an entry
  without \<^verbatim>\<open>"conditional_columns"\<close> has the empty list there (every entry of the table
  has \<^verbatim>\<open>"columns"\<close> and \<^verbatim>\<open>"freq"\<close>).
\<close>

record family_requirement =
  columns :: "string list"
  conditional_columns :: "(string \<times> string list) list"
  freq :: "string list"

type_synonym analysis_requirement = "(string \<times> family_requirement) list"

type_synonym catalog = "(string \<times> analysis_requirement) list"

definition at_least_monthly :: "string list" where
  "at_least_monthly =
     [''M'', ''MS'', ''W'', ''D'', ''H'', ''T'', ''min'', ''S'', ''L'', ''ms'', ''U'', ''us'', ''N'']"

definition at_least_daily :: "string list" where
  "at_least_daily = [''D'', ''H'', ''T'', ''min'', ''S'', ''L'', ''ms'', ''U'', ''us'', ''N'']"

definition at_least_hourly :: "string list" where
  "at_least_hourly = [''H'', ''T'', ''min'', ''S'', ''L'', ''ms'', ''U'', ''us'', ''N'']"

definition ANALYSIS_REQUIREMENTS :: catalog where
  "ANALYSIS_REQUIREMENTS =
    [(''MonteCarloAEP'',
       [(''meter'',
          \<lparr>columns = [''MMTR_SupWh''], conditional_columns = [], freq = at_least_monthly\<rparr>),
        (''curtail'',
          \<lparr>columns = [''IAVL_DnWh'', ''IAVL_ExtPwrDnWh''], conditional_columns = [],
           freq = at_least_monthly\<rparr>),
        (''reanalysis'',
          \<lparr>columns = [''WMETR_HorWdSpd'', ''WMETR_AirDen''],
           conditional_columns =
             [(''reg_temperature'', [''WMETR_EnvTmp'']),
              (''reg_wind_direction'', [''WMETR_HorWdSpdU'', ''WMETR_HorWdSpdV''])],
           freq = at_least_monthly\<rparr>)]),
     (''TurbineLongTermGrossEnergy'',
       [(''scada'',
          \<lparr>columns = [''asset_id'', ''WMET_HorWdSpd'', ''WTUR_W''], conditional_columns = [],
           freq = at_least_daily\<rparr>),
        (''reanalysis'',
          \<lparr>columns = [''WMETR_HorWdSpd'', ''WMETR_HorWdDir'', ''WMETR_AirDen''],
           conditional_columns = [], freq = at_least_daily\<rparr>)]),
     (''ElectricalLosses'',
       [(''scada'',
          \<lparr>columns = [''asset_id'', ''WTUR_W''], conditional_columns = [],
           freq = at_least_daily\<rparr>),
        (''meter'',
          \<lparr>columns = [''MMTR_SupWh''], conditional_columns = [], freq = at_least_monthly\<rparr>)]),
     (''WakeLosses'',
       [(''scada'',
          \<lparr>columns = [''asset_id'', ''WMET_HorWdSpd'', ''WMET_HorWdDir'', ''WTUR_W''],
           conditional_columns = [], freq = at_least_hourly\<rparr>),
        (''reanalysis'',
          \<lparr>columns = [''WMETR_HorWdSpd'', ''WMETR_HorWdDir''], conditional_columns = [],
           freq = at_least_hourly\<rparr>)])]"

section \<open>determine\_analysis\_requirements\<close>

text \<open>
  The results. A result dictionary is compared as a mapping (the key order of the frequency
  dictionary comes from iterating a Python \<^verbatim>\<open>set\<close>), so it is a map from the family name.
  A value of the frequency dictionary is either the list \<^verbatim>\<open>[]\<close> it is initialised with
  (\<open>Unseeded\<close>) or a set (\<open>Seeded\<close>): in Python \<^verbatim>\<open>set() == []\<close> is false, so an empty set
  is never taken for the initial value.
\<close>

datatype freq_slot = Unseeded | Seeded "string set"

type_synonym column_dict = "string \<rightharpoonup> string set"

type_synonym frequency_dict = "string \<rightharpoonup> freq_slot"

datatype requirements_result =
    Columns column_dict
  | Frequency frequency_dict
  | Both column_dict frequency_dict

text \<open>The argument \<^verbatim>\<open>analysis_type: str | list[str]\<close>.\<close>

datatype analysis_type = Str string | StrList "string list"

text \<open>
  \<^verbatim>\<open>requirements = {key: ANALYSIS_REQUIREMENTS[key] for key in analysis_type}\<close>: the keys
  are looked up in order and the first one missing from the table raises \<^verbatim>\<open>KeyError\<close>; a
  repeated key keeps its first position. The table is a parameter \<open>cat\<close> of the model, and
  the functions of the source are the instances at \<open>ANALYSIS_REQUIREMENTS\<close>.
\<close>

fun dar_requirements ::
  "catalog \<Rightarrow> string list \<Rightarrow> catalog \<Rightarrow> error + catalog" where
  "dar_requirements cat [] acc = Inr acc"
| "dar_requirements cat (key # keys) acc =
     (case map_of cat key of
        None \<Rightarrow> Inl (KeyError key)
      | Some v \<Rightarrow> dar_requirements cat keys (AList.update key v acc))"

definition categories :: "string list" where
  "categories = [''scada'', ''meter'', ''tower'', ''curtail'', ''reanalysis'', ''asset'']"

text \<open>
  \<^verbatim>\<open>r.get(cat, {}).get("columns", [])\<close> for one analysis \<open>r\<close>, then the chained set over
  the selected analyses for each category, then the filter \<^verbatim>\<open>v != set()\<close>.
\<close>

definition get_columns :: "analysis_requirement \<Rightarrow> string \<Rightarrow> string list" where
  "get_columns r c = (case map_of r c of None \<Rightarrow> [] | Some fr \<Rightarrow> columns fr)"

definition dar_column_requirements :: "catalog \<Rightarrow> column_dict" where
  "dar_column_requirements requirements =
     (let column_requirements =
            map (\<lambda>c. (c, set (concat (map (\<lambda>r. get_columns r c) (map snd requirements)))))
              categories
      in map_of (filter (\<lambda>(k, v). v \<noteq> {}) column_requirements))"

text \<open>
  The frequency part: the dictionary \<^verbatim>\<open>frequency\<close> of the \<^verbatim>\<open>"freq"\<close> tuples, the
  dictionary \<^verbatim>\<open>frequency_requirements\<close> initialised to \<^verbatim>\<open>[]\<close> at every family of a
  selected analysis, and the two nested loops that seed or intersect.
\<close>

definition dar_frequency :: "catalog \<Rightarrow> (string \<times> (string \<times> string list) list) list" where
  "dar_frequency requirements =
     map (\<lambda>(key, values). (key, map (\<lambda>(name, value). (name, freq value)) values)) requirements"

definition dar_initial :: "(string \<times> (string \<times> string list) list) list \<Rightarrow> frequency_dict" where
  "dar_initial frequency =
     map_of (map (\<lambda>k. (k, Unseeded)) (concat (map (\<lambda>val. map fst val) (map snd frequency))))"

fun dar_update :: "frequency_dict \<Rightarrow> string \<times> string list \<Rightarrow> error + frequency_dict" where
  "dar_update frequency_requirements (name, req) =
     (case frequency_requirements name of
        None \<Rightarrow> Inl (KeyError name)
      | Some Unseeded \<Rightarrow> Inr (frequency_requirements(name \<mapsto> Seeded (set req)))
      | Some (Seeded reqs) \<Rightarrow> Inr (frequency_requirements(name \<mapsto> Seeded (reqs \<inter> set req))))"

definition dar_frequency_requirements :: "catalog \<Rightarrow> error + frequency_dict" where
  "dar_frequency_requirements requirements =
     (let frequency = dar_frequency requirements
      in for_each (\<lambda>frequency_requirements vals. for_each dar_update vals frequency_requirements)
           (map snd frequency) (dar_initial frequency))"

definition determine_analysis_requirements_for ::
  "catalog \<Rightarrow> string \<Rightarrow> analysis_type \<Rightarrow> error + requirements_result" where
  "determine_analysis_requirements_for cat which analysis_type =
     (let analysis_type = (case analysis_type of Str s \<Rightarrow> [s] | StrList l \<Rightarrow> l)
      in case dar_requirements cat analysis_type [] of
           Inl e \<Rightarrow> Inl e
         | Inr requirements \<Rightarrow>
             if which = ''both'' then
               (case dar_frequency_requirements requirements of
                  Inl e \<Rightarrow> Inl e
                | Inr f \<Rightarrow> Inr (Both (dar_column_requirements requirements) f))
             else if which = ''columns'' then
               Inr (Columns (dar_column_requirements requirements))
             else if which = ''frequency'' then
               (case dar_frequency_requirements requirements of
                  Inl e \<Rightarrow> Inl e
                | Inr f \<Rightarrow> Inr (Frequency f))
             else Inl (ValueError ''`which` must be one of 'columns', 'frequency', or 'both'.''))"

definition determine_analysis_requirements ::
  "string \<Rightarrow> analysis_type \<Rightarrow> error + requirements_result" where
  "determine_analysis_requirements =
     determine_analysis_requirements_for ANALYSIS_REQUIREMENTS"

section \<open>PlantMetaData.frequency\_requirements\<close>

text \<open>
  The method does not read \<^verbatim>\<open>self\<close>. Its argument is a \<^verbatim>\<open>list[str | None]\<close>: with
  \<^verbatim>\<open>"all"\<close> in the list the whole table is taken (a deep copy), otherwise the keys that
  are not \<^verbatim>\<open>None\<close> are looked up. The rest repeats the frequency part of
  \<^verbatim>\<open>determine_analysis_requirements\<close> with the two local names exchanged.
\<close>

fun pmd_requirements ::
  "catalog \<Rightarrow> string option list \<Rightarrow> catalog \<Rightarrow> error + catalog" where
  "pmd_requirements cat [] acc = Inr acc"
| "pmd_requirements cat (None # keys) acc = pmd_requirements cat keys acc"
| "pmd_requirements cat (Some key # keys) acc =
     (case map_of cat key of
        None \<Rightarrow> Inl (KeyError key)
      | Some v \<Rightarrow> pmd_requirements cat keys (AList.update key v acc))"

fun pmd_update :: "frequency_dict \<Rightarrow> string \<times> string list \<Rightarrow> error + frequency_dict" where
  "pmd_update frequency (name, req) =
     (case frequency name of
        None \<Rightarrow> Inl (KeyError name)
      | Some Unseeded \<Rightarrow> Inr (frequency(name \<mapsto> Seeded (set req)))
      | Some (Seeded reqs) \<Rightarrow> Inr (frequency(name \<mapsto> Seeded (reqs \<inter> set req))))"

definition frequency_requirements_for ::
  "catalog \<Rightarrow> string option list \<Rightarrow> error + frequency_dict" where
  "frequency_requirements_for cat analysis_types =
     (case (if Some ''all'' \<in> set analysis_types then Inr cat
            else pmd_requirements cat analysis_types []) of
        Inl e \<Rightarrow> Inl e
      | Inr requirements \<Rightarrow>
          let frequency_requirements =
                map (\<lambda>(key, values). (key, map (\<lambda>(name, value). (name, freq value)) values))
                  requirements;
              frequency =
                map_of (map (\<lambda>k. (k, Unseeded))
                  (concat (map (\<lambda>val. map fst val) (map snd frequency_requirements))))
          in for_each (\<lambda>frequency vals. for_each pmd_update vals frequency)
               (map snd frequency_requirements) frequency)"

definition frequency_requirements :: "string option list \<Rightarrow> error + frequency_dict" where
  "frequency_requirements = frequency_requirements_for ANALYSIS_REQUIREMENTS"

section \<open>FromDictMixin\<close>

text \<open>
  An attribute of an \<^verbatim>\<open>attrs\<close> class, as \<^verbatim>\<open>from_dict\<close> reads it: its name, whether it is
  an argument of \<^verbatim>\<open>__init__\<close> (\<^verbatim>\<open>a.init\<close>) and whether it has a default (\<^verbatim>\<open>a.default\<close> is
  not \<^verbatim>\<open>attrs.NOTHING\<close>).
\<close>

type_synonym attribute = "string \<times> bool \<times> bool"

definition attr_name :: "attribute \<Rightarrow> string" where
  "attr_name a = fst a"

definition attr_init :: "attribute \<Rightarrow> bool" where
  "attr_init a = fst (snd a)"

definition attr_has_default :: "attribute \<Rightarrow> bool" where
  "attr_has_default a = snd (snd a)"

text \<open>
  \<^verbatim>\<open>kwargs = {a.name: data[a.name] for a in cls.__attrs_attrs__ if a.name in data and a.init}\<close>
\<close>

definition from_dict_kwargs :: "attribute list \<Rightarrow> (string \<times> 'v) list \<Rightarrow> (string \<times> 'v) list" where
  "from_dict_kwargs attrs data =
     concat (map (\<lambda>a. case map_of data (attr_name a) of
                          None \<Rightarrow> []
                        | Some v \<Rightarrow> if attr_init a then [(attr_name a, v)] else []) attrs)"

text \<open>
  \<^verbatim>\<open>undefined = sorted(set(required_inputs) - set(kwargs))\<close>, from the names of the keyword
  arguments. Python compares strings by code point, as the lexicographic order on
  \<open>string\<close> does.
\<close>

definition from_dict_undefined :: "attribute list \<Rightarrow> string list \<Rightarrow> string list" where
  "from_dict_undefined attrs kwargs_keys =
     (let required_inputs =
            map attr_name (filter (\<lambda>a. attr_init a \<and> \<not> attr_has_default a) attrs)
      in sort (remdups (filter (\<lambda>n. n \<notin> set kwargs_keys) required_inputs)))"

text \<open>\<^verbatim>\<open>from_dict\<close> of a class with attributes \<open>attrs\<close> and constructor \<open>cls\<close>.\<close>

definition from_dict ::
  "attribute list \<Rightarrow> ((string \<times> 'v) list \<Rightarrow> 'c) \<Rightarrow> (string \<times> 'v) list \<Rightarrow> error + 'c" where
  "from_dict attrs cls data =
     (let kwargs = from_dict_kwargs attrs data;
          undefined = from_dict_undefined attrs (map fst kwargs)
      in if undefined \<noteq> [] then Inl (AttributeError undefined) else Inr (cls kwargs))"

text \<open>A keyword argument of a generated \<^verbatim>\<open>__init__\<close>, with the default of the field.\<close>

definition kwarg :: "(string \<times> 'v) list \<Rightarrow> string \<Rightarrow> 'v \<Rightarrow> 'v" where
  "kwarg kwargs n d = (case map_of kwargs n of None \<Rightarrow> d | Some v \<Rightarrow> v)"

text \<open>
  A dictionary comprehension \<^verbatim>\<open>{k: v for ...}\<close> over a list of items: a key that comes
  again overwrites the value and keeps the position of its first insertion.
\<close>

definition dict_of_items :: "('k \<times> 'v) list \<Rightarrow> ('k \<times> 'v) list" where
  "dict_of_items kvs = foldl (\<lambda>d (k, v). AList.update k v d) [] kvs"

section \<open>The metadata classes\<close>

text \<open>
  One record for each class, with the fields that the column maps are built from; the
  fields are annotated \<^verbatim>\<open>str\<close> and a mapping given to \<^verbatim>\<open>from_dict\<close> maps field names to
  column names, so it is a \<open>(string \<times> string) list\<close>. The constant dictionaries
  \<^verbatim>\<open>dtypes\<close> and \<^verbatim>\<open>units\<close> are not read by the operations below and are left out of the
  records; they stay in the attribute lists that \<^verbatim>\<open>from_dict\<close> inspects. The constructor
  of a class is its generated \<^verbatim>\<open>__init__\<close> followed by \<^verbatim>\<open>__attrs_post_init__\<close>.
\<close>

record SCADAMetaData =
  scada_time :: string
  scada_asset_id :: string
  scada_WTUR_W :: string
  scada_WMET_HorWdSpd :: string
  scada_WMET_HorWdDir :: string
  scada_WTUR_TurSt :: string
  scada_WROT_BlPthAngVal :: string
  scada_WMET_EnvTmp :: string
  scada_frequency :: string
  scada_name :: string
  scada_WTUR_SupWh :: string
  scada_col_map :: "(string \<times> string) list"
  scada_col_map_reversed :: "(string \<times> string) list"

definition SCADAMetaData_attrs :: "attribute list" where
  "SCADAMetaData_attrs =
     [(''time'', True, True), (''asset_id'', True, True), (''WTUR_W'', True, True),
      (''WMET_HorWdSpd'', True, True), (''WMET_HorWdDir'', True, True),
      (''WTUR_TurSt'', True, True), (''WROT_BlPthAngVal'', True, True),
      (''WMET_EnvTmp'', True, True), (''frequency'', True, True),
      (''name'', False, True), (''WTUR_SupWh'', False, True), (''col_map'', False, False),
      (''col_map_reversed'', False, False), (''dtypes'', False, True), (''units'', False, True)]"

definition SCADAMetaData_init :: "(string \<times> string) list \<Rightarrow> SCADAMetaData" where
  "SCADAMetaData_init kwargs =
     (let time = kwarg kwargs ''time'' ''time'';
          asset_id = kwarg kwargs ''asset_id'' ''asset_id'';
          WTUR_W = kwarg kwargs ''WTUR_W'' ''WTUR_W'';
          WMET_HorWdSpd = kwarg kwargs ''WMET_HorWdSpd'' ''WMET_HorWdSpd'';
          WMET_HorWdDir = kwarg kwargs ''WMET_HorWdDir'' ''WMET_HorWdDir'';
          WTUR_TurSt = kwarg kwargs ''WTUR_TurSt'' ''WTUR_TurSt'';
          WROT_BlPthAngVal = kwarg kwargs ''WROT_BlPthAngVal'' ''WROT_BlPthAngVal'';
          WMET_EnvTmp = kwarg kwargs ''WMET_EnvTmp'' ''WMET_EnvTmp'';
          frequency = kwarg kwargs ''frequency'' ''10T'';
          WTUR_SupWh = ''WTUR_SupWh'';
          col_map =
            [(''time'', time), (''asset_id'', asset_id), (''WTUR_W'', WTUR_W),
             (''WMET_HorWdSpd'', WMET_HorWdSpd), (''WMET_HorWdDir'', WMET_HorWdDir),
             (''WTUR_TurSt'', WTUR_TurSt), (''WROT_BlPthAngVal'', WROT_BlPthAngVal),
             (''WMET_EnvTmp'', WMET_EnvTmp), (''WTUR_SupWh'', WTUR_SupWh)]
      in \<lparr>scada_time = time, scada_asset_id = asset_id, scada_WTUR_W = WTUR_W,
          scada_WMET_HorWdSpd = WMET_HorWdSpd, scada_WMET_HorWdDir = WMET_HorWdDir,
          scada_WTUR_TurSt = WTUR_TurSt, scada_WROT_BlPthAngVal = WROT_BlPthAngVal,
          scada_WMET_EnvTmp = WMET_EnvTmp, scada_frequency = frequency,
          scada_name = ''scada'', scada_WTUR_SupWh = WTUR_SupWh, scada_col_map = col_map,
          scada_col_map_reversed = dict_of_items (map (\<lambda>(k, v). (v, k)) col_map)\<rparr>)"

definition SCADAMetaData_from_dict :: "(string \<times> string) list \<Rightarrow> error + SCADAMetaData" where
  "SCADAMetaData_from_dict = from_dict SCADAMetaData_attrs SCADAMetaData_init"

record MeterMetaData =
  meter_time :: string
  meter_MMTR_SupWh :: string
  meter_frequency :: string
  meter_name :: string
  meter_col_map :: "(string \<times> string) list"

definition MeterMetaData_attrs :: "attribute list" where
  "MeterMetaData_attrs =
     [(''time'', True, True), (''MMTR_SupWh'', True, True), (''frequency'', True, True),
      (''name'', False, True), (''col_map'', False, False), (''dtypes'', False, True),
      (''units'', False, True)]"

definition MeterMetaData_init :: "(string \<times> string) list \<Rightarrow> MeterMetaData" where
  "MeterMetaData_init kwargs =
     (let time = kwarg kwargs ''time'' ''time'';
          MMTR_SupWh = kwarg kwargs ''MMTR_SupWh'' ''MMTR_SupWh'';
          frequency = kwarg kwargs ''frequency'' ''10T''
      in \<lparr>meter_time = time, meter_MMTR_SupWh = MMTR_SupWh, meter_frequency = frequency,
          meter_name = ''meter'',
          meter_col_map = [(''time'', time), (''MMTR_SupWh'', MMTR_SupWh)]\<rparr>)"

definition MeterMetaData_from_dict :: "(string \<times> string) list \<Rightarrow> error + MeterMetaData" where
  "MeterMetaData_from_dict = from_dict MeterMetaData_attrs MeterMetaData_init"

record TowerMetaData =
  tower_time :: string
  tower_asset_id :: string
  tower_frequency :: string
  tower_name :: string
  tower_col_map :: "(string \<times> string) list"

definition TowerMetaData_attrs :: "attribute list" where
  "TowerMetaData_attrs =
     [(''time'', True, True), (''asset_id'', True, True), (''frequency'', True, True),
      (''name'', False, True), (''col_map'', False, False), (''dtypes'', False, True),
      (''units'', False, True)]"

definition TowerMetaData_init :: "(string \<times> string) list \<Rightarrow> TowerMetaData" where
  "TowerMetaData_init kwargs =
     (let time = kwarg kwargs ''time'' ''time'';
          asset_id = kwarg kwargs ''asset_id'' ''asset_id'';
          frequency = kwarg kwargs ''frequency'' ''10T''
      in \<lparr>tower_time = time, tower_asset_id = asset_id, tower_frequency = frequency,
          tower_name = ''tower'',
          tower_col_map = [(''time'', time), (''asset_id'', asset_id)]\<rparr>)"

definition TowerMetaData_from_dict :: "(string \<times> string) list \<Rightarrow> error + TowerMetaData" where
  "TowerMetaData_from_dict = from_dict TowerMetaData_attrs TowerMetaData_init"

record StatusMetaData =
  status_time :: string
  status_asset_id :: string
  status_status_id :: string
  status_status_code :: string
  status_status_text :: string
  status_frequency :: string
  status_name :: string
  status_col_map :: "(string \<times> string) list"

definition StatusMetaData_attrs :: "attribute list" where
  "StatusMetaData_attrs =
     [(''time'', True, True), (''asset_id'', True, True), (''status_id'', True, True),
      (''status_code'', True, True), (''status_text'', True, True),
      (''frequency'', True, True), (''name'', False, True), (''col_map'', False, False),
      (''dtypes'', False, True), (''units'', False, True)]"

definition StatusMetaData_init :: "(string \<times> string) list \<Rightarrow> StatusMetaData" where
  "StatusMetaData_init kwargs =
     (let time = kwarg kwargs ''time'' ''time'';
          asset_id = kwarg kwargs ''asset_id'' ''asset_id'';
          status_id = kwarg kwargs ''status_id'' ''status_id'';
          status_code = kwarg kwargs ''status_code'' ''status_code'';
          status_text = kwarg kwargs ''status_text'' ''status_text'';
          frequency = kwarg kwargs ''frequency'' ''10T''
      in \<lparr>status_time = time, status_asset_id = asset_id, status_status_id = status_id,
          status_status_code = status_code, status_status_text = status_text,
          status_frequency = frequency, status_name = ''status'',
          status_col_map =
            [(''time'', time), (''asset_id'', asset_id), (''status_id'', status_id),
             (''status_code'', status_code), (''status_text'', status_text)]\<rparr>)"

definition StatusMetaData_from_dict :: "(string \<times> string) list \<Rightarrow> error + StatusMetaData" where
  "StatusMetaData_from_dict = from_dict StatusMetaData_attrs StatusMetaData_init"

record CurtailMetaData =
  curtail_time :: string
  curtail_IAVL_ExtPwrDnWh :: string
  curtail_IAVL_DnWh :: string
  curtail_frequency :: string
  curtail_name :: string
  curtail_col_map :: "(string \<times> string) list"

definition CurtailMetaData_attrs :: "attribute list" where
  "CurtailMetaData_attrs =
     [(''time'', True, True), (''IAVL_ExtPwrDnWh'', True, True), (''IAVL_DnWh'', True, True),
      (''frequency'', True, True), (''name'', False, True), (''col_map'', False, False),
      (''dtypes'', False, True), (''units'', False, True)]"

definition CurtailMetaData_init :: "(string \<times> string) list \<Rightarrow> CurtailMetaData" where
  "CurtailMetaData_init kwargs =
     (let time = kwarg kwargs ''time'' ''time'';
          IAVL_ExtPwrDnWh = kwarg kwargs ''IAVL_ExtPwrDnWh'' ''IAVL_ExtPwrDnWh'';
          IAVL_DnWh = kwarg kwargs ''IAVL_DnWh'' ''IAVL_DnWh'';
          frequency = kwarg kwargs ''frequency'' ''10T''
      in \<lparr>curtail_time = time, curtail_IAVL_ExtPwrDnWh = IAVL_ExtPwrDnWh,
          curtail_IAVL_DnWh = IAVL_DnWh, curtail_frequency = frequency,
          curtail_name = ''curtail'',
          curtail_col_map =
            [(''time'', time), (''IAVL_ExtPwrDnWh'', IAVL_ExtPwrDnWh),
             (''IAVL_DnWh'', IAVL_DnWh)]\<rparr>)"

definition CurtailMetaData_from_dict :: "(string \<times> string) list \<Rightarrow> error + CurtailMetaData" where
  "CurtailMetaData_from_dict = from_dict CurtailMetaData_attrs CurtailMetaData_init"

record AssetMetaData =
  asset_asset_id :: string
  asset_latitude :: string
  asset_longitude :: string
  asset_rated_power :: string
  asset_hub_height :: string
  asset_rotor_diameter :: string
  asset_elevation :: string
  asset_type :: string
  asset_name :: string
  asset_col_map :: "(string \<times> string) list"

definition AssetMetaData_attrs :: "attribute list" where
  "AssetMetaData_attrs =
     [(''asset_id'', True, True), (''latitude'', True, True), (''longitude'', True, True),
      (''rated_power'', True, True), (''hub_height'', True, True),
      (''rotor_diameter'', True, True), (''elevation'', True, True), (''type'', True, True),
      (''name'', False, True), (''col_map'', False, False), (''dtypes'', False, True),
      (''units'', False, True)]"

definition AssetMetaData_init :: "(string \<times> string) list \<Rightarrow> AssetMetaData" where
  "AssetMetaData_init kwargs =
     (let asset_id = kwarg kwargs ''asset_id'' ''asset_id'';
          latitude = kwarg kwargs ''latitude'' ''latitude'';
          longitude = kwarg kwargs ''longitude'' ''longitude'';
          rated_power = kwarg kwargs ''rated_power'' ''rated_power'';
          hub_height = kwarg kwargs ''hub_height'' ''hub_height'';
          rotor_diameter = kwarg kwargs ''rotor_diameter'' ''rotor_diameter'';
          elevation = kwarg kwargs ''elevation'' ''elevation'';
          type = kwarg kwargs ''type'' ''type''
      in \<lparr>asset_asset_id = asset_id, asset_latitude = latitude, asset_longitude = longitude,
          asset_rated_power = rated_power, asset_hub_height = hub_height,
          asset_rotor_diameter = rotor_diameter, asset_elevation = elevation,
          asset_type = type, asset_name = ''asset'',
          asset_col_map =
            [(''asset_id'', asset_id), (''latitude'', latitude), (''longitude'', longitude),
             (''rated_power'', rated_power), (''hub_height'', hub_height),
             (''rotor_diameter'', rotor_diameter), (''elevation'', elevation),
             (''type'', type)]\<rparr>)"

definition AssetMetaData_from_dict :: "(string \<times> string) list \<Rightarrow> error + AssetMetaData" where
  "AssetMetaData_from_dict = from_dict AssetMetaData_attrs AssetMetaData_init"

record ReanalysisMetaData =
  reanalysis_time :: string
  reanalysis_WMETR_HorWdSpd :: string
  reanalysis_WMETR_HorWdSpdU :: string
  reanalysis_WMETR_HorWdSpdV :: string
  reanalysis_WMETR_HorWdDir :: string
  reanalysis_WMETR_EnvTmp :: string
  reanalysis_WMETR_AirDen :: string
  reanalysis_WMETR_EnvPres :: string
  reanalysis_frequency :: string
  reanalysis_name :: string
  reanalysis_col_map :: "(string \<times> string) list"

definition ReanalysisMetaData_attrs :: "attribute list" where
  "ReanalysisMetaData_attrs =
     [(''time'', True, True), (''WMETR_HorWdSpd'', True, True),
      (''WMETR_HorWdSpdU'', True, True), (''WMETR_HorWdSpdV'', True, True),
      (''WMETR_HorWdDir'', True, True), (''WMETR_EnvTmp'', True, True),
      (''WMETR_AirDen'', True, True), (''WMETR_EnvPres'', True, True),
      (''frequency'', True, True), (''name'', False, True), (''col_map'', False, False),
      (''dtypes'', False, True), (''units'', False, True)]"

definition ReanalysisMetaData_init :: "(string \<times> string) list \<Rightarrow> ReanalysisMetaData" where
  "ReanalysisMetaData_init kwargs =
     (let time = kwarg kwargs ''time'' ''time'';
          WMETR_HorWdSpd = kwarg kwargs ''WMETR_HorWdSpd'' ''WMETR_HorWdSpd'';
          WMETR_HorWdSpdU = kwarg kwargs ''WMETR_HorWdSpdU'' ''WMETR_HorWdSpdU'';
          WMETR_HorWdSpdV = kwarg kwargs ''WMETR_HorWdSpdV'' ''WMETR_HorWdSpdV'';
          WMETR_HorWdDir = kwarg kwargs ''WMETR_HorWdDir'' ''WMETR_HorWdDir'';
          WMETR_EnvTmp = kwarg kwargs ''WMETR_EnvTmp'' ''WMETR_EnvTmp'';
          WMETR_AirDen = kwarg kwargs ''WMETR_AirDen'' ''WMETR_AirDen'';
          WMETR_EnvPres = kwarg kwargs ''WMETR_EnvPres'' ''surface_pressure'';
          frequency = kwarg kwargs ''frequency'' ''10T''
      in \<lparr>reanalysis_time = time, reanalysis_WMETR_HorWdSpd = WMETR_HorWdSpd,
          reanalysis_WMETR_HorWdSpdU = WMETR_HorWdSpdU,
          reanalysis_WMETR_HorWdSpdV = WMETR_HorWdSpdV,
          reanalysis_WMETR_HorWdDir = WMETR_HorWdDir, reanalysis_WMETR_EnvTmp = WMETR_EnvTmp,
          reanalysis_WMETR_AirDen = WMETR_AirDen, reanalysis_WMETR_EnvPres = WMETR_EnvPres,
          reanalysis_frequency = frequency, reanalysis_name = ''reanalysis'',
          reanalysis_col_map =
            [(''time'', time), (''WMETR_HorWdSpd'', WMETR_HorWdSpd),
             (''WMETR_HorWdSpdU'', WMETR_HorWdSpdU), (''WMETR_HorWdSpdV'', WMETR_HorWdSpdV),
             (''WMETR_HorWdDir'', WMETR_HorWdDir), (''WMETR_EnvTmp'', WMETR_EnvTmp),
             (''WMETR_AirDen'', WMETR_AirDen), (''WMETR_EnvPres'', WMETR_EnvPres)]\<rparr>)"

definition ReanalysisMetaData_from_dict ::
  "(string \<times> string) list \<Rightarrow> error + ReanalysisMetaData" where
  "ReanalysisMetaData_from_dict = from_dict ReanalysisMetaData_attrs ReanalysisMetaData_init"

text \<open>
  \<^verbatim>\<open>{k: ReanalysisMetaData.from_dict(v) for k, v in value.items()}\<close>, product by product.
\<close>

fun convert_reanalysis ::
  "(string \<times> (string \<times> string) list) list \<Rightarrow> error + (string \<times> ReanalysisMetaData) list" where
  "convert_reanalysis [] = Inr []"
| "convert_reanalysis ((k, v) # rest) =
     (case ReanalysisMetaData_from_dict v of
        Inl e \<Rightarrow> Inl e
      | Inr m \<Rightarrow>
          (case convert_reanalysis rest of
             Inl e \<Rightarrow> Inl e
           | Inr ms \<Rightarrow> Inr ((k, m) # ms)))"

section \<open>PlantMetaData\<close>

text \<open>
  The mapping given to \<^verbatim>\<open>PlantMetaData.from_dict\<close> is read at the names of the ten
  attributes only, so it is modelled by what it holds there, \<open>None\<close> for an absent key, with
  the types of the annotations: a float \<open>'f\<close> for \<^verbatim>\<open>latitude\<close>, \<^verbatim>\<open>longitude\<close> and
  \<^verbatim>\<open>capacity\<close> (on which the converter \<^verbatim>\<open>float\<close> is the identity; the default is \<open>0\<close>), a
  mapping for each fixed family, and a mapping of product names to mappings for
  \<^verbatim>\<open>reanalysis\<close>.
\<close>

record 'f plant_data =
  data_latitude :: "'f option"
  data_longitude :: "'f option"
  data_capacity :: "'f option"
  data_scada :: "(string \<times> string) list option"
  data_meter :: "(string \<times> string) list option"
  data_tower :: "(string \<times> string) list option"
  data_status :: "(string \<times> string) list option"
  data_curtail :: "(string \<times> string) list option"
  data_asset :: "(string \<times> string) list option"
  data_reanalysis :: "(string \<times> (string \<times> string) list) list option"

record 'f PlantMetaData =
  latitude :: 'f
  longitude :: 'f
  capacity :: 'f
  scada :: SCADAMetaData
  meter :: MeterMetaData
  tower :: TowerMetaData
  status :: StatusMetaData
  curtail :: CurtailMetaData
  asset :: AssetMetaData
  reanalysis :: "(string \<times> ReanalysisMetaData) list"

definition PlantMetaData_attrs :: "attribute list" where
  "PlantMetaData_attrs =
     [(''latitude'', True, True), (''longitude'', True, True), (''capacity'', True, True),
      (''scada'', True, True), (''meter'', True, True), (''tower'', True, True),
      (''status'', True, True), (''curtail'', True, True), (''asset'', True, True),
      (''reanalysis'', True, True)]"

text \<open>The keys among the attribute names that the mapping has, in the order of the attributes.\<close>

definition plant_data_keys :: "'f plant_data \<Rightarrow> string list" where
  "plant_data_keys data =
     (if data_latitude data = None then [] else [''latitude'']) @
     (if data_longitude data = None then [] else [''longitude'']) @
     (if data_capacity data = None then [] else [''capacity'']) @
     (if data_scada data = None then [] else [''scada'']) @
     (if data_meter data = None then [] else [''meter'']) @
     (if data_tower data = None then [] else [''tower'']) @
     (if data_status data = None then [] else [''status'']) @
     (if data_curtail data = None then [] else [''curtail'']) @
     (if data_asset data = None then [] else [''asset'']) @
     (if data_reanalysis data = None then [] else [''reanalysis''])"

text \<open>Sequencing of two steps of which the first may raise.\<close>

definition and_then :: "error + 'a \<Rightarrow> ('a \<Rightarrow> error + 'b) \<Rightarrow> error + 'b" where
  "and_then r k = (case r of Inl e \<Rightarrow> Inl e | Inr x \<Rightarrow> k x)"

text \<open>
  The generated \<^verbatim>\<open>__init__\<close>: each field is the converter applied to the keyword argument
  or, without one, to the default (\<^verbatim>\<open>{}\<close> for a fixed family, \<^verbatim>\<open>{"product": {}}\<close> for
  \<^verbatim>\<open>reanalysis\<close>), in the order of the fields.
\<close>

definition PlantMetaData_init :: "'f::zero plant_data \<Rightarrow> error + 'f PlantMetaData" where
  "PlantMetaData_init kwargs =
     (let lat = (case data_latitude kwargs of None \<Rightarrow> 0 | Some x \<Rightarrow> x);
          lon = (case data_longitude kwargs of None \<Rightarrow> 0 | Some x \<Rightarrow> x);
          cap = (case data_capacity kwargs of None \<Rightarrow> 0 | Some x \<Rightarrow> x)
      in
      and_then (SCADAMetaData_from_dict (case data_scada kwargs of None \<Rightarrow> [] | Some d \<Rightarrow> d))
        (\<lambda>sc.
      and_then (MeterMetaData_from_dict (case data_meter kwargs of None \<Rightarrow> [] | Some d \<Rightarrow> d))
        (\<lambda>me.
      and_then (TowerMetaData_from_dict (case data_tower kwargs of None \<Rightarrow> [] | Some d \<Rightarrow> d))
        (\<lambda>to.
      and_then (StatusMetaData_from_dict (case data_status kwargs of None \<Rightarrow> [] | Some d \<Rightarrow> d))
        (\<lambda>st.
      and_then (CurtailMetaData_from_dict (case data_curtail kwargs of None \<Rightarrow> [] | Some d \<Rightarrow> d))
        (\<lambda>cu.
      and_then (AssetMetaData_from_dict (case data_asset kwargs of None \<Rightarrow> [] | Some d \<Rightarrow> d))
        (\<lambda>as.
      and_then
        (convert_reanalysis
           (case data_reanalysis kwargs of None \<Rightarrow> [(''product'', [])] | Some d \<Rightarrow> d))
        (\<lambda>re.
      Inr \<lparr>latitude = lat, longitude = lon, capacity = cap, scada = sc, meter = me,
           tower = to, status = st, curtail = cu, asset = as, reanalysis = re\<rparr>))))))))"

definition PlantMetaData_from_dict :: "'f::zero plant_data \<Rightarrow> error + 'f PlantMetaData" where
  "PlantMetaData_from_dict data =
     (let undefined = from_dict_undefined PlantMetaData_attrs (plant_data_keys data)
      in if undefined \<noteq> [] then Inl (AttributeError undefined) else PlantMetaData_init data)"

text \<open>
  The property \<^verbatim>\<open>column_map\<close>: a dictionary with one entry for each of the seven names,
  the one at \<^verbatim>\<open>"reanalysis"\<close> being a dictionary of column maps by product.
\<close>

record column_map_dict =
  cm_scada :: "(string \<times> string) list"
  cm_meter :: "(string \<times> string) list"
  cm_tower :: "(string \<times> string) list"
  cm_status :: "(string \<times> string) list"
  cm_asset :: "(string \<times> string) list"
  cm_curtail :: "(string \<times> string) list"
  cm_reanalysis :: "(string \<times> (string \<times> string) list) list"

definition column_map :: "'f PlantMetaData \<Rightarrow> column_map_dict" where
  "column_map self =
     (let values =
            \<lparr>cm_scada = scada_col_map (scada self), cm_meter = meter_col_map (meter self),
             cm_tower = tower_col_map (tower self), cm_status = status_col_map (status self),
             cm_asset = asset_col_map (asset self), cm_curtail = curtail_col_map (curtail self),
             cm_reanalysis = []\<rparr>
      in if reanalysis self \<noteq> []
         then values\<lparr>cm_reanalysis :=
                map (\<lambda>(k, v). (k, reanalysis_col_map v)) (reanalysis self)\<rparr>
         else values)"

subsection \<open>Loading\<close>

text \<open>
  What the loader asks of \<^verbatim>\<open>pathlib\<close> and of the file system is a parameter of the model:
  \<^verbatim>\<open>Path.resolve\<close>, \<^verbatim>\<open>Path.suffix\<close>, \<^verbatim>\<open>Path.is_file\<close>, and opening and parsing a
  document (\<^verbatim>\<open>json.load\<close>, \<^verbatim>\<open>yaml.safe_load\<close>), which gives a mapping or raises. A path
  is its text.
\<close>

record 'f environment =
  path_resolve :: "string \<Rightarrow> string"
  path_suffix :: "string \<Rightarrow> string"
  path_is_file :: "string \<Rightarrow> bool"
  json_load :: "string \<Rightarrow> error + 'f plant_data"
  yaml_safe_load :: "string \<Rightarrow> error + 'f plant_data"

definition from_json :: "'f::zero environment \<Rightarrow> string \<Rightarrow> error + 'f PlantMetaData" where
  "from_json env metadata_file =
     (let metadata_file = path_resolve env metadata_file
      in if \<not> path_is_file env metadata_file
         then Inl (FileExistsError
                (''Input JSON file: '' @ metadata_file @ '' is an invalid input.''))
         else and_then (json_load env metadata_file) PlantMetaData_from_dict)"

definition from_yaml :: "'f::zero environment \<Rightarrow> string \<Rightarrow> error + 'f PlantMetaData" where
  "from_yaml env metadata_file =
     (let metadata_file = path_resolve env metadata_file
      in if \<not> path_is_file env metadata_file
         then Inl (FileExistsError
                (''Input YAML file: '' @ metadata_file @ '' is an invalid input.''))
         else and_then (yaml_safe_load env metadata_file) PlantMetaData_from_dict)"

text \<open>
  The argument of \<^verbatim>\<open>load\<close>: an instance, a \<^verbatim>\<open>str\<close>, a \<^verbatim>\<open>Path\<close>, a \<^verbatim>\<open>dict\<close>, or a
  value of any other type.
\<close>

datatype 'f load_source =
    Instance "'f PlantMetaData"
  | PathStr string
  | PathObj string
  | Dict "'f plant_data"
  | Other

definition load_path :: "'f::zero environment \<Rightarrow> string \<Rightarrow> error + 'f PlantMetaData" where
  "load_path env data =
     (if path_suffix env data = ''.json'' then from_json env data
      else if path_suffix env data \<in> {''.yaml'', ''.yml''} then from_yaml env data
      else Inl (ValueError ''Bad input file extension, must be one of: .json, .yml, or .yaml''))"

fun load :: "'f::zero environment \<Rightarrow> 'f load_source \<Rightarrow> error + 'f PlantMetaData" where
  "load env (Instance data) = Inr data"
| "load env (PathStr data) = load_path env (path_resolve env data)"
| "load env (PathObj data) = load_path env data"
| "load env (Dict data) = PlantMetaData_from_dict data"
| "load env Other =
     Inl (ValueError ''PlantMetaData can only be loaded from str, Path, or dict objects.'')"

section \<open>The vocabulary of the specification\<close>

text \<open>
  What the table declares for an analysis \<open>A\<close> and a family \<open>F\<close>: the mandatory columns, the
  conditional columns of the flags of a set, and the accepted frequency classes, which is
  \<open>None\<close> when \<open>A\<close> does not touch \<open>F\<close>.
\<close>

definition mandatory_columns :: "catalog \<Rightarrow> string \<Rightarrow> string \<Rightarrow> string set" where
  "mandatory_columns cat A F =
     (case map_of cat A of
        None \<Rightarrow> {}
      | Some ar \<Rightarrow> (case map_of ar F of None \<Rightarrow> {} | Some fr \<Rightarrow> set (columns fr)))"

definition flagged_columns :: "catalog \<Rightarrow> string set \<Rightarrow> string \<Rightarrow> string \<Rightarrow> string set" where
  "flagged_columns cat flags A F =
     (case map_of cat A of
        None \<Rightarrow> {}
      | Some ar \<Rightarrow>
          (case map_of ar F of
             None \<Rightarrow> {}
           | Some fr \<Rightarrow>
               set (concat (map snd (filter (\<lambda>(flag, cs). flag \<in> flags)
                                       (conditional_columns fr))))))"

definition accepted_classes :: "catalog \<Rightarrow> string \<Rightarrow> string \<Rightarrow> string set option" where
  "accepted_classes cat A F =
     (case map_of cat A of
        None \<Rightarrow> None
      | Some ar \<Rightarrow> (case map_of ar F of None \<Rightarrow> None | Some fr \<Rightarrow> Some (set (freq fr))))"

definition touches :: "catalog \<Rightarrow> string \<Rightarrow> string \<Rightarrow> bool" where
  "touches cat A F = (accepted_classes cat A F \<noteq> None)"

definition touched :: "catalog \<Rightarrow> string list \<Rightarrow> string \<Rightarrow> bool" where
  "touched cat names F = list_ex (\<lambda>A. touches cat A F) names"

text \<open>An absent requirement does not constrain: it accepts every class.\<close>

fun unconstrained :: "string set option \<Rightarrow> string set" where
  "unconstrained None = UNIV"
| "unconstrained (Some s) = s"

fun slot_set :: "freq_slot option \<Rightarrow> string set" where
  "slot_set (Some (Seeded s)) = s"
| "slot_set _ = UNIV"

text \<open>
  The column resolution as the specification words it (section 4.2): for each family
  appearing in a selected analysis, the union over the selected analyses of the mandatory
  columns and of the conditional columns of the active flags.
\<close>

definition spec_resolve_columns :: "catalog \<Rightarrow> string list \<Rightarrow> string set \<Rightarrow> column_dict" where
  "spec_resolve_columns cat names flags =
     (\<lambda>F. if touched cat names F
          then Some (\<Union>A \<in> set names. mandatory_columns cat A F \<union> flagged_columns cat flags A F)
          else None)"

text \<open>
  The frequency resolution as the specification words it: for each family appearing in a
  selected analysis, the intersection over the selected analyses of the accepted classes.
\<close>

definition spec_resolve_frequency :: "catalog \<Rightarrow> string list \<Rightarrow> frequency_dict" where
  "spec_resolve_frequency cat names =
     (\<lambda>F. if touched cat names F
          then Some (Seeded (\<Inter>A \<in> set names. unconstrained (accepted_classes cat A F)))
          else None)"

text \<open>The invariant of a table built from Python dictionaries: keys are distinct.\<close>

definition distinct_keys :: "catalog \<Rightarrow> bool" where
  "distinct_keys cat =
     (distinct (map fst cat) \<and> list_all (\<lambda>(A, ar). distinct (map fst ar)) cat)"

text \<open>
  The items that the two nested loops of the frequency part go through, in order: the
  pairs of a family name and a \<^verbatim>\<open>"freq"\<close> tuple of the selected analyses.
\<close>

definition freq_items :: "catalog \<Rightarrow> (string \<times> string list) list" where
  "freq_items r = concat (map snd (dar_frequency r))"

section \<open>Loops and dictionaries\<close>


lemma for_each_append:
  "for_each f (xs @ ys) s = (case for_each f xs s of Inl e \<Rightarrow> Inl e | Inr s' \<Rightarrow> for_each f ys s')"
  by (induction xs arbitrary: s) (auto split: sum.splits)

lemma for_each_concat:
  "for_each (\<lambda>s vals. for_each f vals s) xss s = for_each f (concat xss) s"
  by (induction xss arbitrary: s) (auto simp: for_each_append split: sum.splits)


lemma for_each_dar_update:
  "fst ` set ps \<subseteq> dom m \<Longrightarrow>
   for_each dar_update ps m =
     Inr (\<lambda>F. if F \<in> fst ` set ps
              then Some (Seeded (slot_set (m F) \<inter> (\<Inter>req \<in> {req. (F, req) \<in> set ps}. set req)))
              else m F)"
proof (induction ps arbitrary: m)
  case Nil
  then show ?case by simp
next
  case (Cons p ps)
  obtain n r where p: "p = (n, r)" by (cases p)
  from Cons.prems p obtain sl where sl: "m n = Some sl" by auto
  define m' where "m' = m(n \<mapsto> Seeded (slot_set (m n) \<inter> set r))"
  have step: "dar_update m p = Inr m'"
    using sl unfolding p m'_def by (cases sl) auto
  have dom: "fst ` set ps \<subseteq> dom m'"
    using Cons.prems unfolding m'_def by auto
  show ?case
    unfolding for_each.simps step sum.case Cons.IH [OF dom]
    by (auto simp: fun_eq_iff m'_def p image_iff)
qed

lemma pmd_update_eq: "pmd_update = dar_update"
  by (auto simp: fun_eq_iff split: option.splits freq_slot.splits)


lemma dar_requirements_acc:
  "set names \<subseteq> fst ` set cat \<Longrightarrow> distinct (map fst acc) \<Longrightarrow>
   \<exists>r. dar_requirements cat names acc = Inr r \<and> distinct (map fst r) \<and>
       map_of r = (\<lambda>k. if k \<in> set names then map_of cat k else map_of acc k)"
proof (induction names arbitrary: acc)
  case Nil
  then show ?case by simp
next
  case (Cons key keys)
  from Cons.prems obtain v where v: "map_of cat key = Some v"
    by (cases "map_of cat key") (auto simp: map_of_eq_None_iff)
  have d: "distinct (map fst (AList.update key v acc))"
    using Cons.prems by (simp add: distinct_update)
  from Cons.prems have sub: "set keys \<subseteq> fst ` set cat" by simp
  from Cons.IH [OF sub d] obtain r where
    r: "dar_requirements cat keys (AList.update key v acc) = Inr r" "distinct (map fst r)"
       "map_of r = (\<lambda>k. if k \<in> set keys then map_of cat k else map_of (AList.update key v acc) k)"
    by blast
  show ?case
    using r v by (auto simp: fun_eq_iff update_conv')
qed

lemma dar_requirements_set:
  assumes "set names \<subseteq> fst ` set cat"
  shows "\<exists>r. dar_requirements cat names [] = Inr r \<and>
           set r = {(A, ar). A \<in> set names \<and> map_of cat A = Some ar}"
proof -
  from dar_requirements_acc [OF assms, of "[]"]
  have "\<exists>r. dar_requirements cat names [] = Inr r \<and> distinct (map fst r) \<and>
         map_of r = (\<lambda>k. if k \<in> set names then map_of cat k else None)"
    by (simp cong: if_cong)
  then obtain r where
    r: "dar_requirements cat names [] = Inr r" "distinct (map fst r)"
       "map_of r = (\<lambda>k. if k \<in> set names then map_of cat k else None)"
    by blast
  have "((A, ar) \<in> set r) = (A \<in> set names \<and> map_of cat A = Some ar)" for A ar
    unfolding map_of_eq_Some_iff [OF r(2), symmetric] r(3) by simp
  then have "set r = {(A, ar). A \<in> set names \<and> map_of cat A = Some ar}"
    by auto
  with r(1) show ?thesis by blast
qed

lemma dar_requirements_KeyError:
  "set ks \<subseteq> fst ` set cat \<Longrightarrow> bad \<notin> fst ` set cat \<Longrightarrow>
   dar_requirements cat (ks @ bad # rest) acc = Inl (KeyError bad)"
proof (induction ks arbitrary: acc)
  case Nil
  then have "map_of cat bad = None" by (simp add: map_of_eq_None_iff)
  then show ?case by simp
next
  case (Cons key keys)
  from Cons.prems obtain v where v: "map_of cat key = Some v"
    by (cases "map_of cat key") (auto simp: map_of_eq_None_iff)
  show ?case using Cons v by simp
qed

lemma map_of_filter_graph:
  "map_of (filter P (map (\<lambda>c. (c, f c)) cs)) c =
     (if c \<in> set cs \<and> P (c, f c) then Some (f c) else None)"
  by (induction cs) auto

lemma dar_column_requirements_char:
  "dar_column_requirements r F =
     (if F \<in> set categories \<and> (\<Union>(A, ar) \<in> set r. set (get_columns ar F)) \<noteq> {}
      then Some (\<Union>(A, ar) \<in> set r. set (get_columns ar F)) else None)"
proof -
  have u: "set (concat (map (\<lambda>r. get_columns r F) (map snd r))) = (\<Union>(A, ar) \<in> set r. set (get_columns ar F))"
    by auto
  show ?thesis
    unfolding dar_column_requirements_def Let_def map_of_filter_graph u [symmetric]
    by simp
qed


lemma set_freq_items:
  "set (freq_items r) = {(F, freq fr) | F fr. \<exists>A ar. (A, ar) \<in> set r \<and> (F, fr) \<in> set ar}"
  unfolding freq_items_def dar_frequency_def by force

lemma map_of_const:
  "map_of (map (\<lambda>k. (k, c)) ks) a = (if a \<in> set ks then Some c else None)"
  by (induction ks) auto

lemma dar_initial_char:
  "dar_initial (dar_frequency r) = (\<lambda>F. if F \<in> fst ` set (freq_items r) then Some Unseeded else None)"
proof -
  have *: "concat (map (\<lambda>val. map fst val) (map snd (dar_frequency r))) = map fst (freq_items r)"
    unfolding freq_items_def by (simp add: map_concat comp_def)
  show ?thesis
    unfolding dar_initial_def by (simp only: * fun_eq_iff map_of_const set_map) simp
qed

lemma dar_frequency_requirements_char:
  "dar_frequency_requirements r =
     Inr (\<lambda>F. if F \<in> fst ` set (freq_items r)
              then Some (Seeded (\<Inter>req \<in> {req. (F, req) \<in> set (freq_items r)}. set req))
              else None)"
proof -
  have dom: "fst ` set (freq_items r) \<subseteq> dom (dar_initial (dar_frequency r))"
    unfolding dar_initial_char by (auto simp: dom_def)
  show ?thesis
    unfolding dar_frequency_requirements_def Let_def for_each_concat
      freq_items_def [symmetric] for_each_dar_update [OF dom]
    by (auto simp: fun_eq_iff dar_initial_char)
qed

section \<open>Resolution over a table\<close>

lemmas catalog_defs = ANALYSIS_REQUIREMENTS_def at_least_monthly_def at_least_daily_def
  at_least_hourly_def

lemma mandatory_columns_get:
  "map_of cat A = Some ar \<Longrightarrow> mandatory_columns cat A F = set (get_columns ar F)"
  by (simp add: mandatory_columns_def get_columns_def split: option.splits)

lemma columns_union:
  assumes "set r = {(A, ar). A \<in> set names \<and> map_of cat A = Some ar}"
  shows "(\<Union>(A, ar) \<in> set r. set (get_columns ar F)) =
         (\<Union>A \<in> set names. mandatory_columns cat A F)"
proof -
  have "(\<Union>A \<in> set names. mandatory_columns cat A F) =
        (\<Union>A \<in> {A \<in> set names. map_of cat A \<noteq> None}. mandatory_columns cat A F)"
    by (auto simp: mandatory_columns_def split: option.splits)
  also have "\<dots> = (\<Union>(A, ar) \<in> set r. set (get_columns ar F))"
    unfolding assms by (auto simp: mandatory_columns_get)
  finally show ?thesis by simp
qed

lemma determine_columns_general:
  assumes "set names \<subseteq> fst ` set cat"
  shows "determine_analysis_requirements_for cat ''columns'' (StrList names) =
     Inr (Columns (\<lambda>F. if F \<in> set categories \<and>
                           (\<Union>A \<in> set names. mandatory_columns cat A F) \<noteq> {}
                        then Some (\<Union>A \<in> set names. mandatory_columns cat A F) else None))"
proof -
  from dar_requirements_set [OF assms] obtain r where
    r: "dar_requirements cat names [] = Inr r"
       "set r = {(A, ar). A \<in> set names \<and> map_of cat A = Some ar}"
    by blast
  have "dar_column_requirements r =
     (\<lambda>F. if F \<in> set categories \<and> (\<Union>A \<in> set names. mandatory_columns cat A F) \<noteq> {}
          then Some (\<Union>A \<in> set names. mandatory_columns cat A F) else None)"
    by (rule ext) (simp only: dar_column_requirements_char columns_union [OF r(2)])
  then show ?thesis
    by (simp add: determine_analysis_requirements_for_def r(1))
qed


lemma distinct_keys_entry:
  "distinct_keys cat \<Longrightarrow> map_of cat A = Some ar \<Longrightarrow> distinct (map fst ar)"
  by (auto simp: distinct_keys_def list_all_iff dest!: map_of_SomeD)

lemma accepted_classes_iff:
  assumes "distinct_keys cat" "map_of cat A = Some ar"
  shows "(accepted_classes cat A F = Some s) = (\<exists>fr. (F, fr) \<in> set ar \<and> s = set (freq fr))"
proof -
  have d: "distinct (map fst ar)" by (rule distinct_keys_entry [OF assms])
  show ?thesis
    unfolding accepted_classes_def assms(2) option.case
    by (auto simp: map_of_eq_Some_iff [OF d, symmetric] split: option.splits)
qed

lemma touched_iff:
  "touched cat names F = (\<exists>A \<in> set names. \<exists>s. accepted_classes cat A F = Some s)"
  by (auto simp: touched_def touches_def list_ex_iff)

lemma freq_items_touched:
  assumes dk: "distinct_keys cat"
    and r: "set r = {(A, ar). A \<in> set names \<and> map_of cat A = Some ar}"
    and sub: "set names \<subseteq> fst ` set cat"
  shows "(F \<in> fst ` set (freq_items r)) = touched cat names F"
proof
  assume "F \<in> fst ` set (freq_items r)"
  then obtain req where "(F, req) \<in> set (freq_items r)" by auto
  then obtain A ar fr where
    *: "A \<in> set names" "map_of cat A = Some ar" "(F, fr) \<in> set ar"
    unfolding set_freq_items r by blast
  then have "accepted_classes cat A F = Some (set (freq fr))"
    unfolding accepted_classes_iff [OF dk *(2)] by blast
  with *(1) show "touched cat names F"
    unfolding touched_iff by blast
next
  assume "touched cat names F"
  then obtain A s where A: "A \<in> set names" "accepted_classes cat A F = Some s"
    unfolding touched_iff by blast
  from A(1) sub obtain ar where ar: "map_of cat A = Some ar"
    by (cases "map_of cat A") (auto simp: map_of_eq_None_iff)
  from A(2) obtain fr where "(F, fr) \<in> set ar"
    unfolding accepted_classes_iff [OF dk ar] by blast
  with A ar have "(F, freq fr) \<in> set (freq_items r)"
    unfolding set_freq_items r by blast
  then show "F \<in> fst ` set (freq_items r)" by force
qed

lemma freq_items_Inter:
  assumes dk: "distinct_keys cat"
    and r: "set r = {(A, ar). A \<in> set names \<and> map_of cat A = Some ar}"
    and sub: "set names \<subseteq> fst ` set cat"
  shows "(\<Inter>req \<in> {req. (F, req) \<in> set (freq_items r)}. set req) =
         (\<Inter>A \<in> set names. unconstrained (accepted_classes cat A F))"
proof (rule set_eqI, rule iffI)
  fix x
  assume x: "x \<in> (\<Inter>req \<in> {req. (F, req) \<in> set (freq_items r)}. set req)"
  show "x \<in> (\<Inter>A \<in> set names. unconstrained (accepted_classes cat A F))"
  proof
    fix A assume A: "A \<in> set names"
    from A sub obtain ar where ar: "map_of cat A = Some ar"
      by (cases "map_of cat A") (auto simp: map_of_eq_None_iff)
    show "x \<in> unconstrained (accepted_classes cat A F)"
    proof (cases "accepted_classes cat A F")
      case None
      then show ?thesis by simp
    next
      case (Some s)
      then obtain fr where fr: "(F, fr) \<in> set ar" "s = set (freq fr)"
        unfolding accepted_classes_iff [OF dk ar] by blast
      with A ar have "(F, freq fr) \<in> set (freq_items r)"
        unfolding set_freq_items r by blast
      with x have "x \<in> set (freq fr)" by blast
      with Some fr show ?thesis by simp
    qed
  qed
next
  fix x
  assume x: "x \<in> (\<Inter>A \<in> set names. unconstrained (accepted_classes cat A F))"
  show "x \<in> (\<Inter>req \<in> {req. (F, req) \<in> set (freq_items r)}. set req)"
  proof
    fix req assume "req \<in> {req. (F, req) \<in> set (freq_items r)}"
    then obtain A ar fr where
      *: "A \<in> set names" "map_of cat A = Some ar" "(F, fr) \<in> set ar" "req = freq fr"
      unfolding set_freq_items r by blast
    then have "accepted_classes cat A F = Some (set req)"
      unfolding accepted_classes_iff [OF dk *(2)] by blast
    with x *(1) have "x \<in> unconstrained (Some (set req))" by force
    then show "x \<in> set req" by simp
  qed
qed

lemma dar_frequency_requirements_selected:
  assumes dk: "distinct_keys cat"
    and r: "set r = {(A, ar). A \<in> set names \<and> map_of cat A = Some ar}"
    and sub: "set names \<subseteq> fst ` set cat"
  shows "dar_frequency_requirements r = Inr (spec_resolve_frequency cat names)"
  unfolding dar_frequency_requirements_char spec_resolve_frequency_def
    freq_items_touched [OF dk r sub] freq_items_Inter [OF dk r sub]
  by (rule refl)

lemma determine_frequency_general:
  assumes "distinct_keys cat" "set names \<subseteq> fst ` set cat"
  shows "determine_analysis_requirements_for cat ''frequency'' (StrList names) =
     Inr (Frequency (spec_resolve_frequency cat names))"
proof -
  from dar_requirements_set [OF assms(2)] obtain r where
    r: "dar_requirements cat names [] = Inr r"
       "set r = {(A, ar). A \<in> set names \<and> map_of cat A = Some ar}"
    by blast
  show ?thesis
    by (simp add: determine_analysis_requirements_for_def r(1)
        dar_frequency_requirements_selected [OF assms(1) r(2) assms(2)])
qed

lemma ANALYSIS_REQUIREMENTS_distinct_keys: "distinct_keys ANALYSIS_REQUIREMENTS"
  by (simp add: distinct_keys_def ANALYSIS_REQUIREMENTS_def)

lemma ANALYSIS_REQUIREMENTS_names:
  "fst ` set ANALYSIS_REQUIREMENTS =
     {''MonteCarloAEP'', ''TurbineLongTermGrossEnergy'', ''ElectricalLosses'', ''WakeLosses''}"
  by (simp add: ANALYSIS_REQUIREMENTS_def)

lemma determine_columns_catalog:
  assumes "set names \<subseteq> fst ` set ANALYSIS_REQUIREMENTS"
  shows "determine_analysis_requirements ''columns'' (StrList names) =
     Inr (Columns (spec_resolve_columns ANALYSIS_REQUIREMENTS names {}))"
proof -
  have flagged: "flagged_columns cat {} A F = {}" for cat A F
    by (simp add: flagged_columns_def split: option.splits)
  have facts: "touches ANALYSIS_REQUIREMENTS A F \<Longrightarrow>
      F \<in> set categories \<and> mandatory_columns ANALYSIS_REQUIREMENTS A F \<noteq> {}" for A F
    by (simp add: touches_def accepted_classes_def mandatory_columns_def categories_def
        ANALYSIS_REQUIREMENTS_def split: if_splits)
  have untouched: "\<not> touches ANALYSIS_REQUIREMENTS A F \<Longrightarrow>
      mandatory_columns ANALYSIS_REQUIREMENTS A F = {}" for A F
    by (simp add: touches_def accepted_classes_def mandatory_columns_def split: option.splits)
  have "(if F \<in> set categories \<and>
            (\<Union>A \<in> set names. mandatory_columns ANALYSIS_REQUIREMENTS A F) \<noteq> {}
         then Some (\<Union>A \<in> set names. mandatory_columns ANALYSIS_REQUIREMENTS A F) else None) =
        spec_resolve_columns ANALYSIS_REQUIREMENTS names {} F" for F
  proof (cases "touched ANALYSIS_REQUIREMENTS names F")
    case True
    then obtain A where "A \<in> set names" "touches ANALYSIS_REQUIREMENTS A F"
      by (auto simp: touched_def list_ex_iff)
    with facts [of A F] have "F \<in> set categories"
      "(\<Union>A \<in> set names. mandatory_columns ANALYSIS_REQUIREMENTS A F) \<noteq> {}"
      by auto
    with True show ?thesis by (simp add: spec_resolve_columns_def flagged)
  next
    case False
    then have "\<forall>A \<in> set names. mandatory_columns ANALYSIS_REQUIREMENTS A F = {}"
      using untouched by (auto simp: touched_def list_ex_iff)
    with False show ?thesis by (simp add: spec_resolve_columns_def)
  qed
  then show ?thesis
    unfolding determine_analysis_requirements_def determine_columns_general [OF assms]
    by simp
qed


lemma determine_frequency_catalog:
  assumes "set names \<subseteq> fst ` set ANALYSIS_REQUIREMENTS"
  shows "determine_analysis_requirements ''frequency'' (StrList names) =
     Inr (Frequency (spec_resolve_frequency ANALYSIS_REQUIREMENTS names))"
  unfolding determine_analysis_requirements_def
  by (rule determine_frequency_general [OF ANALYSIS_REQUIREMENTS_distinct_keys assms])

section \<open>Column resolution\<close>

text \<open>
  Claim C1, as amended. For every non-empty list of analysis names of the table, the column
  resolution \<^verbatim>\<open>determine_analysis_requirements("columns", names)\<close> returns a dictionary
  that has, at each family touched by a selected analysis, the union over the selected
  analyses of the mandatory columns of the family, and that has no key for a family that no
  selected analysis touches. The function takes no flags and never reads
  \<^verbatim>\<open>"conditional_columns"\<close>.
\<close>

theorem C1_column_resolution:
  assumes "names \<noteq> []" and "set names \<subseteq> fst ` set ANALYSIS_REQUIREMENTS"
  shows "\<exists>cols. determine_analysis_requirements ''columns'' (StrList names) = Inr (Columns cols) \<and>
           (\<forall>F. touched ANALYSIS_REQUIREMENTS names F \<longrightarrow>
                cols F = Some (\<Union>A \<in> set names. mandatory_columns ANALYSIS_REQUIREMENTS A F)) \<and>
           (\<forall>F. \<not> touched ANALYSIS_REQUIREMENTS names F \<longrightarrow> cols F = None)"
proof -
  have flagged: "flagged_columns cat {} A F = {}" for cat A F
    by (simp add: flagged_columns_def split: option.splits)
  show ?thesis
    unfolding determine_columns_catalog [OF assms(2)]
    by (simp add: spec_resolve_columns_def flagged)
qed

text \<open>
  At \<^verbatim>\<open>["MonteCarloAEP"]\<close> the hypotheses hold, and the set at \<^verbatim>\<open>"reanalysis"\<close> is the two
  mandatory columns.
\<close>

theorem C1_column_resolution_witness:
  "\<exists>cols. determine_analysis_requirements ''columns'' (StrList [''MonteCarloAEP'']) =
             Inr (Columns cols) \<and>
          cols ''reanalysis'' = Some {''WMETR_HorWdSpd'', ''WMETR_AirDen''} \<and>
          cols ''scada'' = None"
proof -
  have t: "touched ANALYSIS_REQUIREMENTS [''MonteCarloAEP''] ''reanalysis''"
    by (simp add: touched_def touches_def accepted_classes_def ANALYSIS_REQUIREMENTS_def)
  have u: "\<not> touched ANALYSIS_REQUIREMENTS [''MonteCarloAEP''] ''scada''"
    by (simp add: touched_def touches_def accepted_classes_def ANALYSIS_REQUIREMENTS_def)
  have m: "mandatory_columns ANALYSIS_REQUIREMENTS ''MonteCarloAEP'' ''reanalysis'' =
           {''WMETR_HorWdSpd'', ''WMETR_AirDen''}"
    by (simp add: mandatory_columns_def ANALYSIS_REQUIREMENTS_def)
  have n: "[''MonteCarloAEP''] \<noteq> []"
    "set [''MonteCarloAEP''] \<subseteq> fst ` set ANALYSIS_REQUIREMENTS"
    by (simp_all add: ANALYSIS_REQUIREMENTS_names)
  from C1_column_resolution [OF n] obtain cols where
    c: "determine_analysis_requirements ''columns'' (StrList [''MonteCarloAEP'']) =
          Inr (Columns cols)"
       "\<forall>F. touched ANALYSIS_REQUIREMENTS [''MonteCarloAEP''] F \<longrightarrow>
            cols F = Some (\<Union>A \<in> set [''MonteCarloAEP''].
                            mandatory_columns ANALYSIS_REQUIREMENTS A F)"
       "\<forall>F. \<not> touched ANALYSIS_REQUIREMENTS [''MonteCarloAEP''] F \<longrightarrow> cols F = None"
    by blast
  from c(2) t have "cols ''reanalysis'' = Some {''WMETR_HorWdSpd'', ''WMETR_AirDen''}"
    by (simp add: m)
  moreover from c(3) u have "cols ''scada'' = None" by blast
  ultimately show ?thesis using c(1) by blast
qed

section \<open>A single analysis\<close>

lemma touched_single: "touched cat [A] F = touches cat A F"
  by (simp add: touched_def)

lemma spec_resolve_frequency_single:
  "spec_resolve_frequency cat [A] = (\<lambda>F. map_option Seeded (accepted_classes cat A F))"
  by (rule ext) (auto simp: spec_resolve_frequency_def touched_def touches_def)

lemma spec_resolve_columns_single:
  "spec_resolve_columns cat [A] {} =
     (\<lambda>F. if touches cat A F then Some (mandatory_columns cat A F) else None)"
proof -
  have flagged: "flagged_columns cat {} A F = {}" for F
    by (simp add: flagged_columns_def split: option.splits)
  show ?thesis
    by (rule ext) (simp add: spec_resolve_columns_def touched_def flagged)
qed

text \<open>
  Claim C3. For every analysis name \<open>A\<close> of the table, resolving the singleton list
  \<^verbatim>\<open>[A]\<close> returns exactly what the table declares for \<open>A\<close>: the column result has, at
  each family of \<open>A\<close>, the mandatory columns of \<open>A\<close> and no other key, and the frequency
  result has, at each family of \<open>A\<close>, the accepted classes of \<open>A\<close> and no other key.
\<close>

theorem C3_singleton_resolution:
  assumes "A \<in> fst ` set ANALYSIS_REQUIREMENTS"
  shows "determine_analysis_requirements ''columns'' (StrList [A]) =
           Inr (Columns (\<lambda>F. if touches ANALYSIS_REQUIREMENTS A F
                              then Some (mandatory_columns ANALYSIS_REQUIREMENTS A F)
                              else None)) \<and>
         determine_analysis_requirements ''frequency'' (StrList [A]) =
           Inr (Frequency (\<lambda>F. map_option Seeded (accepted_classes ANALYSIS_REQUIREMENTS A F)))"
proof -
  from assms have n: "set [A] \<subseteq> fst ` set ANALYSIS_REQUIREMENTS" by simp
  show ?thesis
    unfolding determine_columns_catalog [OF n] determine_frequency_catalog [OF n]
      spec_resolve_frequency_single spec_resolve_columns_single
    by simp
qed

lemma ElectricalLosses_columns:
  "(\<lambda>F. if touches ANALYSIS_REQUIREMENTS ''ElectricalLosses'' F
        then Some (mandatory_columns ANALYSIS_REQUIREMENTS ''ElectricalLosses'' F) else None) =
   [''scada'' \<mapsto> {''asset_id'', ''WTUR_W''}, ''meter'' \<mapsto> {''MMTR_SupWh''}]"
  by (rule ext)
    (simp add: touches_def accepted_classes_def mandatory_columns_def ANALYSIS_REQUIREMENTS_def)

lemma ElectricalLosses_meter:
  "accepted_classes ANALYSIS_REQUIREMENTS ''ElectricalLosses'' ''meter'' =
     Some (set at_least_monthly)"
  by (simp add: accepted_classes_def ANALYSIS_REQUIREMENTS_def)

text \<open>
  The scenario of the specification: for \<^verbatim>\<open>"ElectricalLosses"\<close> the column result is
  \<^verbatim>\<open>{"scada": {"asset_id", "WTUR_W"}, "meter": {"MMTR_SupWh"}}\<close> and the frequency result
  at \<^verbatim>\<open>"meter"\<close> is the set of the classes from monthly to the finest.
\<close>

theorem C3_singleton_resolution_witness:
  "determine_analysis_requirements ''columns'' (StrList [''ElectricalLosses'']) =
     Inr (Columns [''scada'' \<mapsto> {''asset_id'', ''WTUR_W''}, ''meter'' \<mapsto> {''MMTR_SupWh''}]) \<and>
   (\<exists>f. determine_analysis_requirements ''frequency'' (StrList [''ElectricalLosses'']) =
          Inr (Frequency f) \<and>
        f ''meter'' = Some (Seeded (set at_least_monthly)))"
proof -
  have n: "''ElectricalLosses'' \<in> fst ` set ANALYSIS_REQUIREMENTS"
    by (simp add: ANALYSIS_REQUIREMENTS_names)
  from C3_singleton_resolution [OF n] show ?thesis
    unfolding ElectricalLosses_columns by (simp add: ElectricalLosses_meter)
qed

lemma MonteCarloAEP_spec_columns:
  "spec_resolve_columns ANALYSIS_REQUIREMENTS [''MonteCarloAEP''] {''reg_temperature''}
     ''reanalysis'' = Some ({''WMETR_HorWdSpd'', ''WMETR_AirDen''} \<union> {''WMETR_EnvTmp''})"
proof -
  have t: "touched ANALYSIS_REQUIREMENTS [''MonteCarloAEP''] ''reanalysis''"
    by (simp add: touched_def touches_def accepted_classes_def ANALYSIS_REQUIREMENTS_def)
  have m: "mandatory_columns ANALYSIS_REQUIREMENTS ''MonteCarloAEP'' ''reanalysis'' =
           {''WMETR_HorWdSpd'', ''WMETR_AirDen''}"
    by (simp add: mandatory_columns_def ANALYSIS_REQUIREMENTS_def)
  have f: "flagged_columns ANALYSIS_REQUIREMENTS {''reg_temperature''} ''MonteCarloAEP''
             ''reanalysis'' = {''WMETR_EnvTmp''}"
    by (simp add: flagged_columns_def ANALYSIS_REQUIREMENTS_def)
  show ?thesis
    by (simp add: spec_resolve_columns_def t m f)
qed

lemma MonteCarloAEP_code_columns:
  "spec_resolve_columns ANALYSIS_REQUIREMENTS [''MonteCarloAEP''] {} ''reanalysis'' =
     Some {''WMETR_HorWdSpd'', ''WMETR_AirDen''}"
proof -
  have t: "touched ANALYSIS_REQUIREMENTS [''MonteCarloAEP''] ''reanalysis''"
    by (simp add: touched_def touches_def accepted_classes_def ANALYSIS_REQUIREMENTS_def)
  have m: "mandatory_columns ANALYSIS_REQUIREMENTS ''MonteCarloAEP'' ''reanalysis'' =
           {''WMETR_HorWdSpd'', ''WMETR_AirDen''}"
    by (simp add: mandatory_columns_def ANALYSIS_REQUIREMENTS_def)
  have f: "flagged_columns ANALYSIS_REQUIREMENTS {} ''MonteCarloAEP'' ''reanalysis'' = {}"
    by (simp add: flagged_columns_def ANALYSIS_REQUIREMENTS_def)
  show ?thesis
    by (simp add: spec_resolve_columns_def t m f)
qed

lemma MonteCarloAEP_columns:
  "determine_analysis_requirements ''columns'' (StrList [''MonteCarloAEP'']) =
     Inr (Columns [''meter'' \<mapsto> {''MMTR_SupWh''},
                   ''curtail'' \<mapsto> {''IAVL_DnWh'', ''IAVL_ExtPwrDnWh''},
                   ''reanalysis'' \<mapsto> {''WMETR_HorWdSpd'', ''WMETR_AirDen''}])"
proof -
  have n: "''MonteCarloAEP'' \<in> fst ` set ANALYSIS_REQUIREMENTS"
    by (simp add: ANALYSIS_REQUIREMENTS_names)
  then have s: "set [''MonteCarloAEP''] \<subseteq> fst ` set ANALYSIS_REQUIREMENTS" by simp
  have "spec_resolve_columns ANALYSIS_REQUIREMENTS [''MonteCarloAEP''] {} =
     [''meter'' \<mapsto> {''MMTR_SupWh''},
      ''curtail'' \<mapsto> {''IAVL_DnWh'', ''IAVL_ExtPwrDnWh''},
      ''reanalysis'' \<mapsto> {''WMETR_HorWdSpd'', ''WMETR_AirDen''}]"
    unfolding spec_resolve_columns_single
    by (rule ext)
      (simp add: touches_def accepted_classes_def mandatory_columns_def
        ANALYSIS_REQUIREMENTS_def)
  then show ?thesis
    unfolding determine_columns_catalog [OF s] by simp
qed

text \<open>
  Claim C1, as the specification states it, fails: with the flag \<^verbatim>\<open>reg_temperature\<close>
  active the specification asks for \<^verbatim>\<open>WMETR_EnvTmp\<close> in the set at \<^verbatim>\<open>"reanalysis"\<close>, and
  the result of the code for \<^verbatim>\<open>["MonteCarloAEP"]\<close>, which is the same whatever the flags
  are, does not have it.
\<close>

theorem C1_conditional_columns_counterexample:
  "determine_analysis_requirements ''columns'' (StrList [''MonteCarloAEP'']) =
     Inr (Columns [''meter'' \<mapsto> {''MMTR_SupWh''},
                   ''curtail'' \<mapsto> {''IAVL_DnWh'', ''IAVL_ExtPwrDnWh''},
                   ''reanalysis'' \<mapsto> {''WMETR_HorWdSpd'', ''WMETR_AirDen''}]) \<and>
   spec_resolve_columns ANALYSIS_REQUIREMENTS [''MonteCarloAEP''] {''reg_temperature''}
     ''reanalysis'' = Some ({''WMETR_HorWdSpd'', ''WMETR_AirDen''} \<union> {''WMETR_EnvTmp''}) \<and>
   determine_analysis_requirements ''columns'' (StrList [''MonteCarloAEP'']) \<noteq>
     Inr (Columns (spec_resolve_columns ANALYSIS_REQUIREMENTS [''MonteCarloAEP'']
            {''reg_temperature''}))"
proof -
  have "determine_analysis_requirements ''columns'' (StrList [''MonteCarloAEP'']) \<noteq>
     Inr (Columns (spec_resolve_columns ANALYSIS_REQUIREMENTS [''MonteCarloAEP'']
            {''reg_temperature''}))"
  proof
    assume a: "determine_analysis_requirements ''columns'' (StrList [''MonteCarloAEP'']) =
       Inr (Columns (spec_resolve_columns ANALYSIS_REQUIREMENTS [''MonteCarloAEP'']
              {''reg_temperature''}))"
    have n: "set [''MonteCarloAEP''] \<subseteq> fst ` set ANALYSIS_REQUIREMENTS"
      by (simp add: ANALYSIS_REQUIREMENTS_names)
    from a have
      "spec_resolve_columns ANALYSIS_REQUIREMENTS [''MonteCarloAEP''] {} ''reanalysis'' =
       spec_resolve_columns ANALYSIS_REQUIREMENTS [''MonteCarloAEP''] {''reg_temperature''}
         ''reanalysis''"
      unfolding determine_columns_catalog [OF n] by simp
    then have e: "{''WMETR_HorWdSpd'', ''WMETR_AirDen''} =
               {''WMETR_HorWdSpd'', ''WMETR_AirDen''} \<union> {''WMETR_EnvTmp''}"
      unfolding MonteCarloAEP_spec_columns MonteCarloAEP_code_columns option.inject .
    have "''WMETR_EnvTmp'' \<in> {''WMETR_HorWdSpd'', ''WMETR_AirDen''} \<union> {''WMETR_EnvTmp''}"
      by simp
    then have "''WMETR_EnvTmp'' \<in> {''WMETR_HorWdSpd'', ''WMETR_AirDen''}"
      unfolding e [symmetric] .
    then show False by simp
  qed
  with MonteCarloAEP_columns MonteCarloAEP_spec_columns show ?thesis
    by (simp only: simp_thms)
qed

section \<open>Frequency resolution\<close>

lemma slot_set_single:
  "slot_set (spec_resolve_frequency cat [A] F) = unconstrained (accepted_classes cat A F)"
  by (cases "accepted_classes cat A F") (simp_all add: spec_resolve_frequency_single)

text \<open>
  Claim C4. For every two analysis names \<open>A\<close> and \<open>B\<close> of the table, the frequency
  resolution of \<^verbatim>\<open>[A, B]\<close> has the families of the two singleton results, and at each
  of them the intersection of the two singleton results, a family absent from a singleton
  result counting as unconstrained.
\<close>

theorem C4_frequency_intersection:
  assumes "A \<in> fst ` set ANALYSIS_REQUIREMENTS" and "B \<in> fst ` set ANALYSIS_REQUIREMENTS"
  shows "\<exists>fAB fA fB.
           determine_analysis_requirements ''frequency'' (StrList [A, B]) = Inr (Frequency fAB) \<and>
           determine_analysis_requirements ''frequency'' (StrList [A]) = Inr (Frequency fA) \<and>
           determine_analysis_requirements ''frequency'' (StrList [B]) = Inr (Frequency fB) \<and>
           dom fAB = dom fA \<union> dom fB \<and>
           (\<forall>F \<in> dom fAB. fAB F = Some (Seeded (slot_set (fA F) \<inter> slot_set (fB F))))"
proof -
  let ?cat = ANALYSIS_REQUIREMENTS
  from assms have n: "set [A, B] \<subseteq> fst ` set ?cat" "set [A] \<subseteq> fst ` set ?cat"
    "set [B] \<subseteq> fst ` set ?cat"
    by simp_all
  have d: "dom (spec_resolve_frequency ?cat [A, B]) =
           dom (spec_resolve_frequency ?cat [A]) \<union> dom (spec_resolve_frequency ?cat [B])"
    by (auto simp: spec_resolve_frequency_def touched_def dom_def)
  have v: "spec_resolve_frequency ?cat [A, B] F =
             Some (Seeded (slot_set (spec_resolve_frequency ?cat [A] F) \<inter>
                           slot_set (spec_resolve_frequency ?cat [B] F)))"
    if "F \<in> dom (spec_resolve_frequency ?cat [A, B])" for F
  proof -
    from that have "touched ?cat [A, B] F"
      by (auto simp: spec_resolve_frequency_def split: if_splits)
    then show ?thesis
      unfolding slot_set_single by (simp add: spec_resolve_frequency_def)
  qed
  show ?thesis
    unfolding determine_frequency_catalog [OF n(1)] determine_frequency_catalog [OF n(2)]
      determine_frequency_catalog [OF n(3)]
    using d v by blast
qed

text \<open>
  At \<^verbatim>\<open>"MonteCarloAEP"\<close> and \<^verbatim>\<open>"WakeLosses"\<close>: \<^verbatim>\<open>"reanalysis"\<close> is a family of both and
  gets the hourly classes, \<^verbatim>\<open>"meter"\<close> is a family of the first only and keeps the monthly
  classes.
\<close>

theorem C4_frequency_intersection_witness:
  "\<exists>fAB. determine_analysis_requirements ''frequency''
            (StrList [''MonteCarloAEP'', ''WakeLosses'']) = Inr (Frequency fAB) \<and>
         fAB ''reanalysis'' = Some (Seeded (set at_least_monthly \<inter> set at_least_hourly)) \<and>
         fAB ''meter'' = Some (Seeded (set at_least_monthly \<inter> UNIV))"
proof -
  let ?cat = ANALYSIS_REQUIREMENTS
  have n: "''MonteCarloAEP'' \<in> fst ` set ?cat" "''WakeLosses'' \<in> fst ` set ?cat"
    by (simp_all add: ANALYSIS_REQUIREMENTS_names)
  have a: "accepted_classes ?cat ''MonteCarloAEP'' ''reanalysis'' = Some (set at_least_monthly)"
    "accepted_classes ?cat ''WakeLosses'' ''reanalysis'' = Some (set at_least_hourly)"
    "accepted_classes ?cat ''MonteCarloAEP'' ''meter'' = Some (set at_least_monthly)"
    "accepted_classes ?cat ''WakeLosses'' ''meter'' = None"
    by (simp_all add: accepted_classes_def ANALYSIS_REQUIREMENTS_def)
  have n1: "set [''MonteCarloAEP''] \<subseteq> fst ` set ?cat" "set [''WakeLosses''] \<subseteq> fst ` set ?cat"
    using n by simp_all
  from C4_frequency_intersection [OF n] obtain fAB fA fB where
    f: "determine_analysis_requirements ''frequency''
          (StrList [''MonteCarloAEP'', ''WakeLosses'']) = Inr (Frequency fAB)"
       "determine_analysis_requirements ''frequency'' (StrList [''MonteCarloAEP'']) =
          Inr (Frequency fA)"
       "determine_analysis_requirements ''frequency'' (StrList [''WakeLosses'']) =
          Inr (Frequency fB)"
       "dom fAB = dom fA \<union> dom fB"
       "\<forall>F \<in> dom fAB. fAB F = Some (Seeded (slot_set (fA F) \<inter> slot_set (fB F)))"
    by blast
  from f(2) have fA: "fA = (\<lambda>F. map_option Seeded (accepted_classes ?cat ''MonteCarloAEP'' F))"
    unfolding determine_frequency_catalog [OF n1(1)] spec_resolve_frequency_single by simp
  from f(3) have fB: "fB = (\<lambda>F. map_option Seeded (accepted_classes ?cat ''WakeLosses'' F))"
    unfolding determine_frequency_catalog [OF n1(2)] spec_resolve_frequency_single by simp
  have "''reanalysis'' \<in> dom fAB" "''meter'' \<in> dom fAB"
    unfolding f(4) fA by (simp_all add: a dom_def)
  with f(5) have "fAB ''reanalysis'' = Some (Seeded (slot_set (fA ''reanalysis'') \<inter> slot_set (fB ''reanalysis'')))"
    "fAB ''meter'' = Some (Seeded (slot_set (fA ''meter'') \<inter> slot_set (fB ''meter'')))"
    by blast+
  then have "fAB ''reanalysis'' = Some (Seeded (set at_least_monthly \<inter> set at_least_hourly))"
    "fAB ''meter'' = Some (Seeded (set at_least_monthly \<inter> UNIV))"
    unfolding fA fB by (simp_all add: a)
  with f(1) show ?thesis by blast
qed

lemma untouched_mandatory:
  "\<not> touches cat A F \<Longrightarrow> mandatory_columns cat A F = {}"
  by (simp add: touches_def accepted_classes_def mandatory_columns_def split: option.splits)

text \<open>
  Claim C5. Over any table with distinct keys and for every non-empty list of its analysis
  names: no value of the column result is the empty set, and a family that no selected
  analysis touches has no key in either result; the frequency result keeps the key of
  every touched family, with the intersection of the accepted classes of the selected
  analyses, so with the empty set when these have nothing in common. Both calls return.
\<close>

theorem C5_empty_sets:
  assumes "distinct_keys cat" and "names \<noteq> []" and "set names \<subseteq> fst ` set cat"
  shows "\<exists>cols fr.
           determine_analysis_requirements_for cat ''columns'' (StrList names) =
             Inr (Columns cols) \<and>
           determine_analysis_requirements_for cat ''frequency'' (StrList names) =
             Inr (Frequency fr) \<and>
           (\<forall>F. cols F \<noteq> Some {}) \<and>
           (\<forall>F. \<not> touched cat names F \<longrightarrow> cols F = None \<and> fr F = None) \<and>
           (\<forall>F. touched cat names F \<longrightarrow>
                fr F = Some (Seeded (\<Inter>A \<in> set names. unconstrained (accepted_classes cat A F))))"
proof -
  have "(\<Union>A \<in> set names. mandatory_columns cat A F) = {}" if "\<not> touched cat names F" for F
    using that by (auto simp: touched_def list_ex_iff untouched_mandatory)
  then show ?thesis
    unfolding determine_columns_general [OF assms(3)]
      determine_frequency_general [OF assms(1) assms(3)]
    by (simp add: spec_resolve_frequency_def)
qed

text \<open>
  A table of two analyses whose accepted classes for \<^verbatim>\<open>"scada"\<close> are disjoint: the key
  \<^verbatim>\<open>"scada"\<close> is in the frequency result with the empty set, and the key \<^verbatim>\<open>"meter"\<close>,
  which neither touches, is in neither result.
\<close>

theorem C5_empty_sets_witness:
  "\<exists>cols fr.
     determine_analysis_requirements_for
       [(''A'', [(''scada'', \<lparr>columns = [''WTUR_W''], conditional_columns = [], freq = [''M'']\<rparr>)]),
        (''B'', [(''scada'', \<lparr>columns = [''WTUR_W''], conditional_columns = [], freq = [''D'']\<rparr>)])]
       ''columns'' (StrList [''A'', ''B'']) = Inr (Columns cols) \<and>
     determine_analysis_requirements_for
       [(''A'', [(''scada'', \<lparr>columns = [''WTUR_W''], conditional_columns = [], freq = [''M'']\<rparr>)]),
        (''B'', [(''scada'', \<lparr>columns = [''WTUR_W''], conditional_columns = [], freq = [''D'']\<rparr>)])]
       ''frequency'' (StrList [''A'', ''B'']) = Inr (Frequency fr) \<and>
     fr ''scada'' = Some (Seeded {}) \<and> fr ''meter'' = None \<and> cols ''meter'' = None"
proof -
  define cat :: catalog where "cat =
       [(''A'', [(''scada'', \<lparr>columns = [''WTUR_W''], conditional_columns = [], freq = [''M'']\<rparr>)]),
        (''B'', [(''scada'', \<lparr>columns = [''WTUR_W''], conditional_columns = [], freq = [''D'']\<rparr>)])]"
  have h: "distinct_keys cat" "[''A'', ''B''] \<noteq> []" "set [''A'', ''B''] \<subseteq> fst ` set cat"
    by (simp_all add: cat_def distinct_keys_def)
  have a: "accepted_classes cat ''A'' ''scada'' = Some {''M''}"
    "accepted_classes cat ''B'' ''scada'' = Some {''D''}"
    "accepted_classes cat ''A'' ''meter'' = None"
    "accepted_classes cat ''B'' ''meter'' = None"
    by (simp_all add: accepted_classes_def cat_def)
  have t: "touched cat [''A'', ''B''] ''scada''" "\<not> touched cat [''A'', ''B''] ''meter''"
    by (simp_all add: touched_def touches_def a)
  from C5_empty_sets [OF h] obtain cols fr where
    r: "determine_analysis_requirements_for cat ''columns'' (StrList [''A'', ''B'']) =
          Inr (Columns cols)"
       "determine_analysis_requirements_for cat ''frequency'' (StrList [''A'', ''B'']) =
          Inr (Frequency fr)"
       "\<forall>F. \<not> touched cat [''A'', ''B''] F \<longrightarrow> cols F = None \<and> fr F = None"
       "\<forall>F. touched cat [''A'', ''B''] F \<longrightarrow>
            fr F = Some (Seeded (\<Inter>A \<in> set [''A'', ''B''].
                                  unconstrained (accepted_classes cat A F)))"
    by blast
  from r(4) t(1) have "fr ''scada'' = Some (Seeded {})"
    by (simp add: a)
  moreover from r(3) t(2) have "fr ''meter'' = None" "cols ''meter'' = None"
    by blast+
  ultimately show ?thesis
    using r(1,2) unfolding cat_def by blast
qed

section \<open>The two entry points\<close>

lemma frequency_requirements_for_eq:
  "frequency_requirements_for cat analysis_types =
     (case (if Some ''all'' \<in> set analysis_types then Inr cat
            else pmd_requirements cat analysis_types []) of
        Inl e \<Rightarrow> Inl e
      | Inr requirements \<Rightarrow> dar_frequency_requirements requirements)"
  unfolding frequency_requirements_for_def dar_frequency_requirements_def dar_frequency_def
    dar_initial_def pmd_update_eq Let_def
  by (rule refl)

lemma pmd_requirements_Some:
  "pmd_requirements cat (map Some names) acc = dar_requirements cat names acc"
  by (induction names arbitrary: acc) (simp_all split: option.splits)

lemma all_not_analysis: "''all'' \<notin> fst ` set ANALYSIS_REQUIREMENTS"
  by (simp add: ANALYSIS_REQUIREMENTS_names)

text \<open>
  Claim C7. For every non-empty list of analysis names of the table,
  \<^verbatim>\<open>PlantMetaData.frequency_requirements\<close> and
  \<^verbatim>\<open>determine_analysis_requirements("frequency", ...)\<close> both return, and return the same
  dictionary.
\<close>

theorem C7_entry_points_agree:
  assumes "names \<noteq> []" and "set names \<subseteq> fst ` set ANALYSIS_REQUIREMENTS"
  shows "\<exists>f. frequency_requirements (map Some names) = Inr f \<and>
             determine_analysis_requirements ''frequency'' (StrList names) = Inr (Frequency f)"
proof -
  from dar_requirements_set [OF assms(2)] obtain r where
    r: "dar_requirements ANALYSIS_REQUIREMENTS names [] = Inr r"
    by blast
  from assms(2) all_not_analysis have "Some ''all'' \<notin> set (map Some names)"
    by auto
  then have "frequency_requirements (map Some names) = dar_frequency_requirements r"
    unfolding frequency_requirements_def frequency_requirements_for_eq pmd_requirements_Some
    by (simp add: r)
  moreover have "determine_analysis_requirements ''frequency'' (StrList names) =
      (case dar_frequency_requirements r of Inl e \<Rightarrow> Inl e | Inr f \<Rightarrow> Inr (Frequency f))"
    by (simp add: determine_analysis_requirements_def determine_analysis_requirements_for_def r)
  ultimately show ?thesis
    by (simp add: dar_frequency_requirements_char)
qed

text \<open>At \<^verbatim>\<open>["ElectricalLosses", "WakeLosses"]\<close>.\<close>

theorem C7_entry_points_agree_witness:
  "\<exists>f. frequency_requirements [Some ''ElectricalLosses'', Some ''WakeLosses''] = Inr f \<and>
       determine_analysis_requirements ''frequency''
         (StrList [''ElectricalLosses'', ''WakeLosses'']) = Inr (Frequency f)"
proof -
  have h: "[''ElectricalLosses'', ''WakeLosses''] \<noteq> []"
    "set [''ElectricalLosses'', ''WakeLosses''] \<subseteq> fst ` set ANALYSIS_REQUIREMENTS"
    by (simp_all add: ANALYSIS_REQUIREMENTS_names)
  from C7_entry_points_agree [OF h] show ?thesis by simp
qed

section \<open>Unknown names, the empty list and the wildcard\<close>

lemma determine_KeyError:
  assumes "set ks \<subseteq> fst ` set cat" and "bad \<notin> fst ` set cat"
  shows "determine_analysis_requirements_for cat which (StrList (ks @ bad # rest)) =
           Inl (KeyError bad)"
  by (simp add: determine_analysis_requirements_for_def dar_requirements_KeyError [OF assms])

lemma pmd_requirements_KeyError:
  "set ks \<subseteq> fst ` set cat \<Longrightarrow> bad \<notin> fst ` set cat \<Longrightarrow>
   pmd_requirements cat (map Some ks @ Some bad # others) acc = Inl (KeyError bad)"
proof (induction ks arbitrary: acc)
  case Nil
  then have "map_of cat bad = None" by (simp add: map_of_eq_None_iff)
  then show ?case by simp
next
  case (Cons key keys)
  from Cons.prems obtain v where v: "map_of cat key = Some v"
    by (cases "map_of cat key") (auto simp: map_of_eq_None_iff)
  show ?case using Cons v by simp
qed

lemma determine_empty:
  "determine_analysis_requirements_for cat ''columns'' (StrList []) = Inr (Columns Map.empty)"
  "determine_analysis_requirements_for cat ''frequency'' (StrList []) =
     Inr (Frequency Map.empty)"
  by (simp_all add: determine_analysis_requirements_for_def dar_column_requirements_char
      dar_frequency_requirements_char freq_items_def dar_frequency_def fun_eq_iff)

lemma frequency_requirements_empty: "frequency_requirements_for cat [] = Inr Map.empty"
  by (simp add: frequency_requirements_for_eq dar_frequency_requirements_char freq_items_def
      dar_frequency_def fun_eq_iff)

text \<open>
  Claim C2, as the specification states it, fails: an empty list of analysis names raises
  nothing, each resolution returns the empty dictionary.
\<close>

theorem C2_empty_list_counterexample:
  "determine_analysis_requirements ''columns'' (StrList []) = Inr (Columns Map.empty) \<and>
   determine_analysis_requirements ''frequency'' (StrList []) = Inr (Frequency Map.empty) \<and>
   frequency_requirements [] = Inr Map.empty"
  unfolding determine_analysis_requirements_def frequency_requirements_def
  by (simp add: determine_empty frequency_requirements_empty)

text \<open>
  Claim C2, as amended. A list whose first name outside the table is \<open>bad\<close> makes
  \<^verbatim>\<open>determine_analysis_requirements\<close> raise \<^verbatim>\<open>KeyError\<close> with that name, whatever
  \<^verbatim>\<open>which\<close> is, and makes \<^verbatim>\<open>PlantMetaData.frequency_requirements\<close> raise the same
  unless \<^verbatim>\<open>"all"\<close> is in the list; the empty list raises nothing and gives the empty
  dictionary.
\<close>

theorem C2_unknown_name_and_empty_list:
  assumes "set ks \<subseteq> fst ` set ANALYSIS_REQUIREMENTS"
    and "bad \<notin> fst ` set ANALYSIS_REQUIREMENTS"
  shows "determine_analysis_requirements which (StrList (ks @ bad # rest)) =
           Inl (KeyError bad) \<and>
         (Some ''all'' \<notin> set (Some bad # others) \<longrightarrow>
            frequency_requirements (map Some ks @ Some bad # others) = Inl (KeyError bad)) \<and>
         determine_analysis_requirements ''columns'' (StrList []) = Inr (Columns Map.empty) \<and>
         determine_analysis_requirements ''frequency'' (StrList []) =
           Inr (Frequency Map.empty) \<and>
         frequency_requirements [] = Inr Map.empty"
proof -
  from assms(1) all_not_analysis have "Some ''all'' \<notin> set (map Some ks)"
    by auto
  then have "frequency_requirements (map Some ks @ Some bad # others) = Inl (KeyError bad)"
    if "Some ''all'' \<notin> set (Some bad # others)"
    using that unfolding frequency_requirements_def frequency_requirements_for_eq
    by (simp add: pmd_requirements_KeyError [OF assms])
  then show ?thesis
    unfolding determine_analysis_requirements_def frequency_requirements_def
    by (simp add: determine_KeyError [OF assms] determine_empty frequency_requirements_empty)
qed

text \<open>At the list \<^verbatim>\<open>["WakeLosses", "Bogus"]\<close>.\<close>

theorem C2_unknown_name_and_empty_list_witness:
  "determine_analysis_requirements ''both'' (StrList [''WakeLosses'', ''Bogus'']) =
     Inl (KeyError ''Bogus'') \<and>
   frequency_requirements [Some ''WakeLosses'', Some ''Bogus''] = Inl (KeyError ''Bogus'')"
proof -
  have h: "set [''WakeLosses''] \<subseteq> fst ` set ANALYSIS_REQUIREMENTS"
    "''Bogus'' \<notin> fst ` set ANALYSIS_REQUIREMENTS"
    by (simp_all add: ANALYSIS_REQUIREMENTS_names)
  from C2_unknown_name_and_empty_list [OF h, of "''both''" "[]" "[]"] show ?thesis
    by simp
qed

lemma dar_frequency_requirements_whole:
  assumes "distinct_keys cat"
  shows "dar_frequency_requirements cat = Inr (spec_resolve_frequency cat (map fst cat))"
proof -
  from assms have d: "distinct (map fst cat)" by (simp add: distinct_keys_def)
  have "set cat = {(A, ar). A \<in> set (map fst cat) \<and> map_of cat A = Some ar}"
    by (auto simp: map_of_eq_Some_iff [OF d] intro: rev_image_eqI)
  moreover have "set (map fst cat) \<subseteq> fst ` set cat" by simp
  ultimately show ?thesis
    by (rule dar_frequency_requirements_selected [OF assms])
qed

lemma frequency_requirements_all:
  assumes "Some ''all'' \<in> set analysis_types"
  shows "frequency_requirements analysis_types =
     Inr (spec_resolve_frequency ANALYSIS_REQUIREMENTS (map fst ANALYSIS_REQUIREMENTS))"
  unfolding frequency_requirements_def frequency_requirements_for_eq
  using assms
  by (simp add: dar_frequency_requirements_whole [OF ANALYSIS_REQUIREMENTS_distinct_keys])

lemma frequency_requirements_names:
  assumes "set names \<subseteq> fst ` set ANALYSIS_REQUIREMENTS"
  shows "frequency_requirements (map Some names) =
     Inr (spec_resolve_frequency ANALYSIS_REQUIREMENTS names)"
proof -
  from dar_requirements_set [OF assms] obtain r where
    r: "dar_requirements ANALYSIS_REQUIREMENTS names [] = Inr r"
       "set r = {(A, ar). A \<in> set names \<and> map_of ANALYSIS_REQUIREMENTS A = Some ar}"
    by blast
  from assms all_not_analysis have "Some ''all'' \<notin> set (map Some names)"
    by auto
  then show ?thesis
    unfolding frequency_requirements_def frequency_requirements_for_eq pmd_requirements_Some
    by (simp add: r(1)
        dar_frequency_requirements_selected [OF ANALYSIS_REQUIREMENTS_distinct_keys r(2) assms])
qed

text \<open>
  Claim C6, as the specification states it, fails: \<^verbatim>\<open>determine_analysis_requirements\<close>
  has no wildcard. It looks \<^verbatim>\<open>"all"\<close> up in the table and raises \<^verbatim>\<open>KeyError\<close>, for the
  columns and for the frequencies, where the list of every name of the table gives a
  result.
\<close>

theorem C6_wildcard_counterexample:
  "determine_analysis_requirements ''columns'' (StrList [''all'']) = Inl (KeyError ''all'') \<and>
   determine_analysis_requirements ''frequency'' (StrList [''all'']) = Inl (KeyError ''all'') \<and>
   determine_analysis_requirements ''columns'' (StrList (map fst ANALYSIS_REQUIREMENTS)) =
     Inr (Columns (spec_resolve_columns ANALYSIS_REQUIREMENTS (map fst ANALYSIS_REQUIREMENTS) {})) \<and>
   determine_analysis_requirements ''frequency'' (StrList (map fst ANALYSIS_REQUIREMENTS)) =
     Inr (Frequency (spec_resolve_frequency ANALYSIS_REQUIREMENTS
                       (map fst ANALYSIS_REQUIREMENTS)))"
proof -
  have e: "set [] \<subseteq> fst ` set ANALYSIS_REQUIREMENTS" by simp
  have n: "set (map fst ANALYSIS_REQUIREMENTS) \<subseteq> fst ` set ANALYSIS_REQUIREMENTS" by simp
  from determine_KeyError [OF e all_not_analysis, of _ "[]"]
  have "determine_analysis_requirements which (StrList [''all'']) = Inl (KeyError ''all'')"
    for which
    unfolding determine_analysis_requirements_def by simp
  then show ?thesis
    by (simp only: determine_columns_catalog [OF n] determine_frequency_catalog [OF n] simp_thms)
qed

text \<open>
  Claim C6, as amended. \<^verbatim>\<open>PlantMetaData.frequency_requirements\<close> with \<^verbatim>\<open>"all"\<close> in its
  list returns what it returns for the list of every name of the table, and it does
  return; \<^verbatim>\<open>determine_analysis_requirements\<close> raises \<^verbatim>\<open>KeyError\<close> on \<^verbatim>\<open>"all"\<close>,
  given as a string or in a list, whatever \<^verbatim>\<open>which\<close> is.
\<close>

theorem C6_wildcard:
  assumes "Some ''all'' \<in> set analysis_types"
  shows "(\<exists>f. frequency_requirements analysis_types = Inr f \<and>
              frequency_requirements (map Some (map fst ANALYSIS_REQUIREMENTS)) = Inr f) \<and>
         determine_analysis_requirements which (Str ''all'') = Inl (KeyError ''all'') \<and>
         determine_analysis_requirements which (StrList [''all'']) = Inl (KeyError ''all'')"
proof -
  have e: "set [] \<subseteq> fst ` set ANALYSIS_REQUIREMENTS" by simp
  have n: "set (map fst ANALYSIS_REQUIREMENTS) \<subseteq> fst ` set ANALYSIS_REQUIREMENTS" by simp
  from determine_KeyError [OF e all_not_analysis, of which "[]"]
  have k: "determine_analysis_requirements which (StrList [''all'']) = Inl (KeyError ''all'')"
    unfolding determine_analysis_requirements_def by simp
  have s: "determine_analysis_requirements which (Str ''all'') =
           determine_analysis_requirements which (StrList [''all''])"
    by (simp add: determine_analysis_requirements_def determine_analysis_requirements_for_def)
  show ?thesis
    unfolding s k frequency_requirements_all [OF assms] frequency_requirements_names [OF n]
    by simp
qed

text \<open>At the list \<^verbatim>\<open>["all"]\<close>, and \<^verbatim>\<open>which = "both"\<close>.\<close>

theorem C6_wildcard_witness:
  "(\<exists>f. frequency_requirements [Some ''all''] = Inr f \<and>
        frequency_requirements (map Some (map fst ANALYSIS_REQUIREMENTS)) = Inr f) \<and>
   determine_analysis_requirements ''both'' (Str ''all'') = Inl (KeyError ''all'')"
proof -
  have h: "Some ''all'' \<in> set [Some ''all'']" by simp
  from C6_wildcard [OF h, of "''both''"] show ?thesis by blast
qed

section \<open>Loading\<close>

lemma from_json_missing:
  "\<not> path_is_file env (path_resolve env p) \<Longrightarrow>
   from_json env p =
     Inl (FileExistsError (''Input JSON file: '' @ path_resolve env p @ '' is an invalid input.''))"
  by (simp add: from_json_def)

lemma from_yaml_missing:
  "\<not> path_is_file env (path_resolve env p) \<Longrightarrow>
   from_yaml env p =
     Inl (FileExistsError (''Input YAML file: '' @ path_resolve env p @ '' is an invalid input.''))"
  by (simp add: from_yaml_def)

lemma load_path_bad_suffix:
  "path_suffix env p \<notin> {''.json'', ''.yaml'', ''.yml''} \<Longrightarrow>
   load_path env p =
     Inl (ValueError ''Bad input file extension, must be one of: .json, .yml, or .yaml'')"
  by (simp add: load_path_def)

lemma load_path_missing:
  "path_suffix env p \<in> {''.json'', ''.yaml'', ''.yml''} \<Longrightarrow>
   \<not> path_is_file env (path_resolve env p) \<Longrightarrow>
   \<exists>msg. load_path env p = Inl (FileExistsError msg)"
  by (auto simp: load_path_def from_json_missing from_yaml_missing)

text \<open>
  Claim C8. \<^verbatim>\<open>PlantMetaData.load\<close> on a path whose suffix is none of \<^verbatim>\<open>.json\<close>,
  \<^verbatim>\<open>.yaml\<close>, \<^verbatim>\<open>.yml\<close> raises the \<^verbatim>\<open>ValueError\<close> of the bad extension; on a path with
  one of these suffixes that is not a file it raises \<^verbatim>\<open>FileExistsError\<close>; on a value that
  is no instance, mapping, string or path it raises the \<^verbatim>\<open>ValueError\<close> of the bad type.
  These two exception classes are what the specification calls \<^verbatim>\<open>ConfigurationError\<close> and
  \<^verbatim>\<open>NotFoundError\<close>. A string is resolved to a path before its suffix is read.
\<close>

theorem C8_load_errors:
  "(path_suffix env p \<notin> {''.json'', ''.yaml'', ''.yml''} \<longrightarrow>
      load env (PathObj p) =
        Inl (ValueError ''Bad input file extension, must be one of: .json, .yml, or .yaml'')) \<and>
   (path_suffix env (path_resolve env s) \<notin> {''.json'', ''.yaml'', ''.yml''} \<longrightarrow>
      load env (PathStr s) =
        Inl (ValueError ''Bad input file extension, must be one of: .json, .yml, or .yaml'')) \<and>
   (path_suffix env p \<in> {''.json'', ''.yaml'', ''.yml''} \<and>
    \<not> path_is_file env (path_resolve env p) \<longrightarrow>
      (\<exists>msg. load env (PathObj p) = Inl (FileExistsError msg))) \<and>
   (path_suffix env (path_resolve env s) \<in> {''.json'', ''.yaml'', ''.yml''} \<and>
    \<not> path_is_file env (path_resolve env (path_resolve env s)) \<longrightarrow>
      (\<exists>msg. load env (PathStr s) = Inl (FileExistsError msg))) \<and>
   load env Other =
     Inl (ValueError ''PlantMetaData can only be loaded from str, Path, or dict objects.'')"
  using load_path_bad_suffix [of env p] load_path_bad_suffix [of env "path_resolve env s"]
    load_path_missing [of env p] load_path_missing [of env "path_resolve env s"]
  by simp

text \<open>
  In a file system without files, where a path resolves to itself and its suffix starts at
  its first dot: \<^verbatim>\<open>plant.txt\<close> is a bad extension and \<^verbatim>\<open>plant.yml\<close> is not found.
\<close>

theorem C8_load_errors_witness:
  "load \<lparr>path_resolve = (\<lambda>p. p), path_suffix = dropWhile (\<lambda>c. c \<noteq> CHR ''.''),
         path_is_file = (\<lambda>p. False),
         json_load = (\<lambda>p. Inl (FileExistsError p)),
         yaml_safe_load = (\<lambda>p. Inl (FileExistsError p))\<rparr>
     (PathStr ''plant.txt'') =
     (Inl (ValueError ''Bad input file extension, must be one of: .json, .yml, or .yaml'')
        :: error + real PlantMetaData) \<and>
   (\<exists>msg. load \<lparr>path_resolve = (\<lambda>p. p), path_suffix = dropWhile (\<lambda>c. c \<noteq> CHR ''.''),
               path_is_file = (\<lambda>p. False),
               json_load = (\<lambda>p. Inl (FileExistsError p)),
               yaml_safe_load = (\<lambda>p. Inl (FileExistsError p))\<rparr>
          (PathObj ''plant.yml'') = (Inl (FileExistsError msg) :: error + real PlantMetaData))"
proof -
  define env :: "real environment" where
    "env = \<lparr>path_resolve = (\<lambda>p. p), path_suffix = dropWhile (\<lambda>c. c \<noteq> CHR ''.''),
            path_is_file = (\<lambda>p. False),
            json_load = (\<lambda>p. Inl (FileExistsError p)),
            yaml_safe_load = (\<lambda>p. Inl (FileExistsError p))\<rparr>"
  have a: "path_suffix env (path_resolve env ''plant.txt'') \<notin> {''.json'', ''.yaml'', ''.yml''}"
    by (simp add: env_def)
  have b: "path_suffix env ''plant.yml'' \<in> {''.json'', ''.yaml'', ''.yml''} \<and>
           \<not> path_is_file env (path_resolve env ''plant.yml'')"
    by (simp add: env_def)
  from C8_load_errors [of env "''plant.yml''" "''plant.txt''"] a b show ?thesis
    unfolding env_def by blast
qed

section \<open>Construction from a mapping\<close>

lemma from_dict_undefined_defaults:
  assumes "list_all (\<lambda>a. attr_init a \<longrightarrow> attr_has_default a) attrs"
  shows "from_dict_undefined attrs ks = []"
proof -
  from assms have "filter (\<lambda>a. attr_init a \<and> \<not> attr_has_default a) attrs = []"
    by (auto simp: list_all_iff filter_empty_conv)
  then show ?thesis by (simp add: from_dict_undefined_def)
qed

lemma from_dict_defaults:
  assumes "list_all (\<lambda>a. attr_init a \<longrightarrow> attr_has_default a) attrs"
  shows "from_dict attrs cls data = Inr (cls (from_dict_kwargs attrs data))"
  by (simp add: from_dict_def from_dict_undefined_defaults [OF assms])

lemmas attr_defs = attr_init_def attr_has_default_def attr_name_def

lemma SCADAMetaData_from_dict_total:
  "SCADAMetaData_from_dict data =
     Inr (SCADAMetaData_init (from_dict_kwargs SCADAMetaData_attrs data))"
  unfolding SCADAMetaData_from_dict_def
  by (rule from_dict_defaults) (simp add: SCADAMetaData_attrs_def attr_defs)

lemma MeterMetaData_from_dict_total:
  "MeterMetaData_from_dict data =
     Inr (MeterMetaData_init (from_dict_kwargs MeterMetaData_attrs data))"
  unfolding MeterMetaData_from_dict_def
  by (rule from_dict_defaults) (simp add: MeterMetaData_attrs_def attr_defs)

lemma TowerMetaData_from_dict_total:
  "TowerMetaData_from_dict data =
     Inr (TowerMetaData_init (from_dict_kwargs TowerMetaData_attrs data))"
  unfolding TowerMetaData_from_dict_def
  by (rule from_dict_defaults) (simp add: TowerMetaData_attrs_def attr_defs)

lemma StatusMetaData_from_dict_total:
  "StatusMetaData_from_dict data =
     Inr (StatusMetaData_init (from_dict_kwargs StatusMetaData_attrs data))"
  unfolding StatusMetaData_from_dict_def
  by (rule from_dict_defaults) (simp add: StatusMetaData_attrs_def attr_defs)

lemma CurtailMetaData_from_dict_total:
  "CurtailMetaData_from_dict data =
     Inr (CurtailMetaData_init (from_dict_kwargs CurtailMetaData_attrs data))"
  unfolding CurtailMetaData_from_dict_def
  by (rule from_dict_defaults) (simp add: CurtailMetaData_attrs_def attr_defs)

lemma AssetMetaData_from_dict_total:
  "AssetMetaData_from_dict data =
     Inr (AssetMetaData_init (from_dict_kwargs AssetMetaData_attrs data))"
  unfolding AssetMetaData_from_dict_def
  by (rule from_dict_defaults) (simp add: AssetMetaData_attrs_def attr_defs)

lemma ReanalysisMetaData_from_dict_total:
  "ReanalysisMetaData_from_dict data =
     Inr (ReanalysisMetaData_init (from_dict_kwargs ReanalysisMetaData_attrs data))"
  unfolding ReanalysisMetaData_from_dict_def
  by (rule from_dict_defaults) (simp add: ReanalysisMetaData_attrs_def attr_defs)

lemma convert_reanalysis_total:
  "convert_reanalysis value =
     Inr (map (\<lambda>(k, v). (k, ReanalysisMetaData_init (from_dict_kwargs ReanalysisMetaData_attrs v)))
            value)"
  by (induction "value") (auto simp: ReanalysisMetaData_from_dict_total)

lemma from_dict_kwargs_empty: "from_dict_kwargs attrs [] = []"
  by (induction attrs) (simp_all add: from_dict_kwargs_def)

lemma PlantMetaData_from_dict_total:
  "PlantMetaData_from_dict data =
     Inr \<lparr>latitude = (case data_latitude data of None \<Rightarrow> 0 | Some x \<Rightarrow> x),
          longitude = (case data_longitude data of None \<Rightarrow> 0 | Some x \<Rightarrow> x),
          capacity = (case data_capacity data of None \<Rightarrow> 0 | Some x \<Rightarrow> x),
          scada = SCADAMetaData_init (from_dict_kwargs SCADAMetaData_attrs
                    (case data_scada data of None \<Rightarrow> [] | Some d \<Rightarrow> d)),
          meter = MeterMetaData_init (from_dict_kwargs MeterMetaData_attrs
                    (case data_meter data of None \<Rightarrow> [] | Some d \<Rightarrow> d)),
          tower = TowerMetaData_init (from_dict_kwargs TowerMetaData_attrs
                    (case data_tower data of None \<Rightarrow> [] | Some d \<Rightarrow> d)),
          status = StatusMetaData_init (from_dict_kwargs StatusMetaData_attrs
                    (case data_status data of None \<Rightarrow> [] | Some d \<Rightarrow> d)),
          curtail = CurtailMetaData_init (from_dict_kwargs CurtailMetaData_attrs
                    (case data_curtail data of None \<Rightarrow> [] | Some d \<Rightarrow> d)),
          asset = AssetMetaData_init (from_dict_kwargs AssetMetaData_attrs
                    (case data_asset data of None \<Rightarrow> [] | Some d \<Rightarrow> d)),
          reanalysis =
            map (\<lambda>(k, v). (k, ReanalysisMetaData_init
                                (from_dict_kwargs ReanalysisMetaData_attrs v)))
              (case data_reanalysis data of None \<Rightarrow> [(''product'', [])] | Some d \<Rightarrow> d)\<rparr>"
proof -
  have u: "from_dict_undefined PlantMetaData_attrs ks = []" for ks
    by (rule from_dict_undefined_defaults) (simp add: PlantMetaData_attrs_def attr_defs)
  show ?thesis
    unfolding PlantMetaData_from_dict_def PlantMetaData_init_def u Let_def
      SCADAMetaData_from_dict_total MeterMetaData_from_dict_total TowerMetaData_from_dict_total
      StatusMetaData_from_dict_total CurtailMetaData_from_dict_total
      AssetMetaData_from_dict_total convert_reanalysis_total and_then_def
    by simp
qed

lemma default_reanalysis_col_map:
  "reanalysis_col_map (ReanalysisMetaData_init []) =
     [(''time'', ''time''), (''WMETR_HorWdSpd'', ''WMETR_HorWdSpd''),
      (''WMETR_HorWdSpdU'', ''WMETR_HorWdSpdU''), (''WMETR_HorWdSpdV'', ''WMETR_HorWdSpdV''),
      (''WMETR_HorWdDir'', ''WMETR_HorWdDir''), (''WMETR_EnvTmp'', ''WMETR_EnvTmp''),
      (''WMETR_AirDen'', ''WMETR_AirDen''), (''WMETR_EnvPres'', ''surface_pressure'')]"
  by (simp add: ReanalysisMetaData_init_def kwarg_def Let_def)

text \<open>
  Claim C9, as amended. For every mapping without the key \<^verbatim>\<open>"reanalysis"\<close>, the
  constructed \<^verbatim>\<open>PlantMetaData\<close> has one reanalysis product, named \<^verbatim>\<open>"product"\<close> and made
  of the defaults, and the entry \<^verbatim>\<open>"reanalysis"\<close> of \<^verbatim>\<open>column_map\<close> is the column map of
  that product; there are no products when the mapping has \<^verbatim>\<open>"reanalysis": {}\<close>.
\<close>

theorem C9_reanalysis_default:
  "(data_reanalysis data = None \<longrightarrow>
      (\<exists>pm. PlantMetaData_from_dict data = Inr pm \<and>
            reanalysis pm = [(''product'', ReanalysisMetaData_init [])] \<and>
            cm_reanalysis (column_map pm) =
              [(''product'',
                [(''time'', ''time''), (''WMETR_HorWdSpd'', ''WMETR_HorWdSpd''),
                 (''WMETR_HorWdSpdU'', ''WMETR_HorWdSpdU''),
                 (''WMETR_HorWdSpdV'', ''WMETR_HorWdSpdV''),
                 (''WMETR_HorWdDir'', ''WMETR_HorWdDir''), (''WMETR_EnvTmp'', ''WMETR_EnvTmp''),
                 (''WMETR_AirDen'', ''WMETR_AirDen''),
                 (''WMETR_EnvPres'', ''surface_pressure'')])])) \<and>
   (data_reanalysis data = Some [] \<longrightarrow>
      (\<exists>pm. PlantMetaData_from_dict data = Inr pm \<and> reanalysis pm = [] \<and>
            cm_reanalysis (column_map pm) = []))"
  unfolding PlantMetaData_from_dict_total
  by (simp add: column_map_def from_dict_kwargs_empty default_reanalysis_col_map)

text \<open>At the empty mapping, and at the mapping that has only \<^verbatim>\<open>"reanalysis": {}\<close>.\<close>

theorem C9_reanalysis_default_witness:
  "(\<exists>pm :: real PlantMetaData.
      PlantMetaData_from_dict
        \<lparr>data_latitude = None, data_longitude = None, data_capacity = None, data_scada = None,
         data_meter = None, data_tower = None, data_status = None, data_curtail = None,
         data_asset = None, data_reanalysis = None\<rparr> = Inr pm \<and>
      map fst (reanalysis pm) = [''product'']) \<and>
   (\<exists>pm :: real PlantMetaData.
      PlantMetaData_from_dict
        \<lparr>data_latitude = None, data_longitude = None, data_capacity = None, data_scada = None,
         data_meter = None, data_tower = None, data_status = None, data_curtail = None,
         data_asset = None, data_reanalysis = Some []\<rparr> = Inr pm \<and>
      reanalysis pm = [])"
  using
    C9_reanalysis_default [of "\<lparr>data_latitude = None, data_longitude = None,
      data_capacity = None, data_scada = None, data_meter = None, data_tower = None,
      data_status = None, data_curtail = None, data_asset = None,
      data_reanalysis = None\<rparr> :: real plant_data"]
    C9_reanalysis_default [of "\<lparr>data_latitude = None, data_longitude = None,
      data_capacity = None, data_scada = None, data_meter = None, data_tower = None,
      data_status = None, data_curtail = None, data_asset = None,
      data_reanalysis = Some []\<rparr> :: real plant_data"]
  by auto

text \<open>
  Claim C9, as the specification states it, fails: from the empty mapping, the constructed
  \<^verbatim>\<open>PlantMetaData\<close> has the reanalysis product \<^verbatim>\<open>"product"\<close>, and so has its
  \<^verbatim>\<open>column_map\<close>.
\<close>

theorem C9_no_reanalysis_key_counterexample:
  "map_sum id (map fst \<circ> reanalysis)
     (PlantMetaData_from_dict
        \<lparr>data_latitude = None, data_longitude = None, data_capacity = None, data_scada = None,
         data_meter = None, data_tower = None, data_status = None, data_curtail = None,
         data_asset = None, data_reanalysis = None\<rparr> :: error + real PlantMetaData) =
     Inr [''product''] \<and>
   map_sum id (map fst \<circ> cm_reanalysis \<circ> column_map)
     (PlantMetaData_from_dict
        \<lparr>data_latitude = None, data_longitude = None, data_capacity = None, data_scada = None,
         data_meter = None, data_tower = None, data_status = None, data_curtail = None,
         data_asset = None, data_reanalysis = None\<rparr> :: error + real PlantMetaData) =
     Inr [''product'']"
  unfolding PlantMetaData_from_dict_total
  by (simp add: column_map_def)

section \<open>The reversed column map\<close>

lemma map_of_foldl_update:
  "map_of (foldl (\<lambda>d (k, v). AList.update k v d) acc kvs) = map_of acc ++ map_of (rev kvs)"
proof (induction kvs arbitrary: acc)
  case Nil
  then show ?case by simp
next
  case (Cons p kvs)
  obtain k v where p: "p = (k, v)" by (cases p)
  show ?case
    unfolding p by (simp add: Cons.IH update_conv' fun_eq_iff map_add_def split: option.splits)
qed

lemma map_of_dict_of_items: "map_of (dict_of_items kvs) = map_of (rev kvs)"
  by (simp add: dict_of_items_def map_of_foldl_update)

lemma map_of_rev_last:
  "map_of (rev kvs) x =
     (case filter (\<lambda>(k, v). k = x) kvs of [] \<Rightarrow> None | p # ps \<Rightarrow> Some (snd (last (p # ps))))"
proof (induction kvs rule: rev_induct)
  case Nil
  then show ?case by simp
next
  case (snoc p kvs)
  obtain k v where p: "p = (k, v)" by (cases p)
  show ?case
    unfolding p using snoc.IH by (auto split: list.splits)
qed

lemma reversed_last:
  "map_of (dict_of_items (map (\<lambda>(k, v). (v, k)) cm)) c =
     (case filter (\<lambda>(k, v). v = c) cm of [] \<Rightarrow> None | p # ps \<Rightarrow> Some (fst (last (p # ps))))"
proof -
  have f: "filter (\<lambda>(k, v). k = c) (map (\<lambda>(k, v). (v, k)) cm) =
           map (\<lambda>(k, v). (v, k)) (filter (\<lambda>(k, v). v = c) cm)"
    by (induction cm) auto
  show ?thesis
    unfolding map_of_dict_of_items map_of_rev_last f
    by (cases "filter (\<lambda>(k, v). v = c) cm") (auto simp: last_map split: prod.splits)
qed

lemma reversed_inverse:
  assumes "distinct (map fst cm)" and "distinct (map snd cm)"
  shows "(map_of cm k = Some c) = (map_of (dict_of_items (map (\<lambda>(k, v). (v, k)) cm)) c = Some k)"
proof -
  have d: "distinct (map fst (rev (map (\<lambda>(k, v). (v, k)) cm)))"
    using assms(2) by (simp add: rev_map [symmetric] comp_def case_prod_unfold)
  have "(map_of (rev (map (\<lambda>(k, v). (v, k)) cm)) c = Some k) = ((k, c) \<in> set cm)"
    unfolding map_of_eq_Some_iff [OF d] by auto
  then show ?thesis
    unfolding map_of_dict_of_items map_of_eq_Some_iff [OF assms(1)] by simp
qed

lemma scada_col_map_keys:
  "map fst (scada_col_map (SCADAMetaData_init kwargs)) =
     [''time'', ''asset_id'', ''WTUR_W'', ''WMET_HorWdSpd'', ''WMET_HorWdDir'', ''WTUR_TurSt'',
      ''WROT_BlPthAngVal'', ''WMET_EnvTmp'', ''WTUR_SupWh'']"
  by (simp add: SCADAMetaData_init_def Let_def)

lemma scada_col_map_reversed:
  "scada_col_map_reversed (SCADAMetaData_init kwargs) =
     dict_of_items (map (\<lambda>(k, v). (v, k)) (scada_col_map (SCADAMetaData_init kwargs)))"
  by (simp add: SCADAMetaData_init_def Let_def)

text \<open>
  Claim C10. Every construction of a \<^verbatim>\<open>SCADAMetaData\<close> from a mapping succeeds. When the
  nine column names of its \<^verbatim>\<open>col_map\<close> are pairwise distinct, \<^verbatim>\<open>col_map_reversed\<close> is the
  inverse of \<^verbatim>\<open>col_map\<close> in both directions. In every case, \<^verbatim>\<open>col_map_reversed\<close> maps a
  column name to the last field of \<^verbatim>\<open>col_map\<close> that has this column name, so that of two
  fields with the same column name the earlier one is lost.
\<close>

theorem C10_col_map_reversed:
  "\<exists>m. SCADAMetaData_from_dict data = Inr m \<and>
       (distinct (map snd (scada_col_map m)) \<longrightarrow>
          (\<forall>k c. (map_of (scada_col_map m) k = Some c) =
                  (map_of (scada_col_map_reversed m) c = Some k))) \<and>
       (\<forall>c. map_of (scada_col_map_reversed m) c =
              (case filter (\<lambda>(k, v). v = c) (scada_col_map m) of
                 [] \<Rightarrow> None
               | p # ps \<Rightarrow> Some (fst (last (p # ps)))))"
proof -
  let ?m = "SCADAMetaData_init (from_dict_kwargs SCADAMetaData_attrs data)"
  have d: "distinct (map fst (scada_col_map ?m))"
    unfolding scada_col_map_keys by simp
  show ?thesis
    unfolding SCADAMetaData_from_dict_total
    using reversed_inverse [OF d] reversed_last [of "scada_col_map ?m"]
    by (simp add: scada_col_map_reversed)
qed

text \<open>
  From the empty mapping the nine column names are the defaults, which are distinct, and
  \<^verbatim>\<open>"WTUR_W"\<close> is mapped back to itself. From a mapping that gives the column name
  \<^verbatim>\<open>"power"\<close> to \<^verbatim>\<open>WTUR_W\<close> and to \<^verbatim>\<open>WMET_EnvTmp\<close>, the construction succeeds and
  \<^verbatim>\<open>col_map_reversed\<close> has \<^verbatim>\<open>"power"\<close> at \<^verbatim>\<open>WMET_EnvTmp\<close>, the later of the two fields.
\<close>

theorem C10_col_map_reversed_witness:
  "(\<exists>m. SCADAMetaData_from_dict [] = Inr m \<and>
        distinct (map snd (scada_col_map m)) \<and>
        map_of (scada_col_map m) ''WTUR_W'' = Some ''WTUR_W'' \<and>
        map_of (scada_col_map_reversed m) ''WTUR_W'' = Some ''WTUR_W'') \<and>
   (\<exists>m. SCADAMetaData_from_dict [(''WTUR_W'', ''power''), (''WMET_EnvTmp'', ''power'')] = Inr m \<and>
        map_of (scada_col_map m) ''WTUR_W'' = Some ''power'' \<and>
        map_of (scada_col_map m) ''WMET_EnvTmp'' = Some ''power'' \<and>
        map_of (scada_col_map_reversed m) ''power'' = Some ''WMET_EnvTmp'')"
proof -
  let ?d = "[(''WTUR_W'', ''power''), (''WMET_EnvTmp'', ''power'')]"
  have c1: "scada_col_map (SCADAMetaData_init (from_dict_kwargs SCADAMetaData_attrs [])) =
      [(''time'', ''time''), (''asset_id'', ''asset_id''), (''WTUR_W'', ''WTUR_W''),
       (''WMET_HorWdSpd'', ''WMET_HorWdSpd''), (''WMET_HorWdDir'', ''WMET_HorWdDir''),
       (''WTUR_TurSt'', ''WTUR_TurSt''), (''WROT_BlPthAngVal'', ''WROT_BlPthAngVal''),
       (''WMET_EnvTmp'', ''WMET_EnvTmp''), (''WTUR_SupWh'', ''WTUR_SupWh'')]"
    by (simp add: from_dict_kwargs_empty SCADAMetaData_init_def Let_def kwarg_def)
  have k: "from_dict_kwargs SCADAMetaData_attrs ?d = ?d"
    by (simp add: from_dict_kwargs_def SCADAMetaData_attrs_def attr_defs)
  have c2: "scada_col_map (SCADAMetaData_init (from_dict_kwargs SCADAMetaData_attrs ?d)) =
      [(''time'', ''time''), (''asset_id'', ''asset_id''), (''WTUR_W'', ''power''),
       (''WMET_HorWdSpd'', ''WMET_HorWdSpd''), (''WMET_HorWdDir'', ''WMET_HorWdDir''),
       (''WTUR_TurSt'', ''WTUR_TurSt''), (''WROT_BlPthAngVal'', ''WROT_BlPthAngVal''),
       (''WMET_EnvTmp'', ''power''), (''WTUR_SupWh'', ''WTUR_SupWh'')]"
    unfolding k by (simp add: SCADAMetaData_init_def Let_def kwarg_def)
  from C10_col_map_reversed [of "[]"] obtain m1 where
    m1: "SCADAMetaData_from_dict [] = Inr m1"
        "distinct (map snd (scada_col_map m1)) \<longrightarrow>
           (\<forall>k c. (map_of (scada_col_map m1) k = Some c) =
                   (map_of (scada_col_map_reversed m1) c = Some k))"
    by blast
  from m1(1) have e1: "scada_col_map m1 =
      [(''time'', ''time''), (''asset_id'', ''asset_id''), (''WTUR_W'', ''WTUR_W''),
       (''WMET_HorWdSpd'', ''WMET_HorWdSpd''), (''WMET_HorWdDir'', ''WMET_HorWdDir''),
       (''WTUR_TurSt'', ''WTUR_TurSt''), (''WROT_BlPthAngVal'', ''WROT_BlPthAngVal''),
       (''WMET_EnvTmp'', ''WMET_EnvTmp''), (''WTUR_SupWh'', ''WTUR_SupWh'')]"
    unfolding SCADAMetaData_from_dict_total using c1 by simp
  have dis: "distinct (map snd (scada_col_map m1))"
    unfolding e1 by simp
  have w1: "map_of (scada_col_map m1) ''WTUR_W'' = Some ''WTUR_W''"
    unfolding e1 by simp
  with m1(2) dis have r1: "map_of (scada_col_map_reversed m1) ''WTUR_W'' = Some ''WTUR_W''"
    by blast
  from C10_col_map_reversed [of ?d] obtain m2 where
    m2: "SCADAMetaData_from_dict ?d = Inr m2"
        "\<forall>c. map_of (scada_col_map_reversed m2) c =
              (case filter (\<lambda>(k, v). v = c) (scada_col_map m2) of
                 [] \<Rightarrow> None
               | p # ps \<Rightarrow> Some (fst (last (p # ps))))"
    by blast
  from m2(1) have e2: "scada_col_map m2 =
      [(''time'', ''time''), (''asset_id'', ''asset_id''), (''WTUR_W'', ''power''),
       (''WMET_HorWdSpd'', ''WMET_HorWdSpd''), (''WMET_HorWdDir'', ''WMET_HorWdDir''),
       (''WTUR_TurSt'', ''WTUR_TurSt''), (''WROT_BlPthAngVal'', ''WROT_BlPthAngVal''),
       (''WMET_EnvTmp'', ''power''), (''WTUR_SupWh'', ''WTUR_SupWh'')]"
    unfolding SCADAMetaData_from_dict_total using c2 by simp
  from m2(2) have r2: "map_of (scada_col_map_reversed m2) ''power'' = Some ''WMET_EnvTmp''"
    unfolding e2 by simp
  have w2: "map_of (scada_col_map m2) ''WTUR_W'' = Some ''power''"
    "map_of (scada_col_map m2) ''WMET_EnvTmp'' = Some ''power''"
    unfolding e2 by simp_all
  from m1(1) dis w1 r1 m2(1) w2 r2 show ?thesis by blast
qed

end
